theory Spec2Isabelle
  imports Complex_Main "HOL-Library.Multiset" "HOL-Library.List_Lexorder" "HOL-Library.Char_ord"
begin

section \<open>Overlay and classification pipeline of 3.ComputeFrequencyCutsPerForestTypeMatrix.py\<close>

text \<open>
  The script overlays the forest inventory layer with the forest intervention layer,
  classifies every intersection fragment, persists the fragments in a GeoPackage and
  aggregates their areas into a percentage matrix and a probability matrix.

  Conventions of the embedding:
  \<^item> a Python \<open>str\<close> is a \<open>string\<close>, one \<open>char\<close> per code point (the Latin-1 range,
    which holds every literal of the script); a value that may be null (\<open>None\<close>, for
    which \<open>pd.isna\<close> holds) is a \<open>string option\<close>, and \<open>str(x) if pd.notna(x) else None\<close>
    is then the identity;
  \<^item> the two JSON lookup files are not part of the sources and are parameters:
    dictionaries of dictionaries, \<open>string \<rightharpoonup> (string \<rightharpoonup> string)\<close>;
  \<^item> the geometry library (shapely) is a parameter as well: a record of the operations
    the script calls (\<open>intersection\<close>, \<open>is_empty\<close>, \<open>area\<close>, the query of the STRtree);
  \<^item> a Python name that may be unbound is an \<open>option\<close>, and using it while unbound is
    the error \<open>NameError\<close>.
\<close>

subsection \<open>Reclassification functions (lines 49--75)\<close>

type_synonym lookup_table = "string \<rightharpoonup> (string \<rightharpoonup> string)"

definition age_classes :: "string list" where
  "age_classes = [''10'', ''20'', ''30'', ''40'', ''50'', ''60'', ''70'', ''80'', ''90'',
                  ''100'', ''110'', ''120'', ''130'', ''140'']"

definition reclassify_cl_age :: "string option \<Rightarrow> string option" where
  "reclassify_cl_age cl_age =
     (case cl_age of
        Some s \<Rightarrow> if s \<in> set age_classes then Some ''Even'' else Some ''Uneven''
      | None \<Rightarrow> None)"

text \<open>
  The two French tolerance labels the classifier compares against; their fourth
  (respectively sixth) character is e with an acute accent, the code point U+00E9.
\<close>

definition Tolerant_label :: string where
  "Tolerant_label = ''Tol'' @ [CHR 0xE9] @ ''rant''"

definition Intolerant_label :: string where
  "Intolerant_label = ''Intol'' @ [CHR 0xE9] @ ''rant''"

definition classify_shade_tolerance :: "lookup_table \<Rightarrow> string option \<Rightarrow> string option" where
  "classify_shade_tolerance shade_tolerance gr_ess =
     (case gr_ess of
        None \<Rightarrow> None
      | Some s \<Rightarrow>
          (let species_code = take 2 s in
           case shade_tolerance species_code of
             Some entry \<Rightarrow>
               (let tolerance = (case entry ''tolerance_ombre'' of Some t \<Rightarrow> t | None \<Rightarrow> ''Unknown'')
                in Some (if tolerance = Tolerant_label then ''Tol''
                         else if tolerance = Intolerant_label then ''Intol''
                         else ''Unknown''))
           | None \<Rightarrow> Some ''Unknown''))"

subsection \<open>Geometries and the geometry library\<close>

text \<open>
  A shapely geometry by its type. \<open>'p\<close> is the data of one single polygon; the library
  computes with it, the script only passes it on. The intersection of two polygonal
  geometries can be of any of these types.
\<close>

datatype 'p geometry =
    Polygon 'p
  | MultiPolygon "'p list"
  | GeometryCollection "'p geometry list"
  | LineString
  | Point

text \<open>
  The operations of shapely the script calls. \<open>query geoms g\<close> is
  \<open>STRtree(geoms).query(g, predicate='intersects')\<close>: indices into \<open>geoms\<close>.
\<close>

record 'p engine =
  intersection :: "'p geometry \<Rightarrow> 'p geometry \<Rightarrow> 'p geometry"
  is_empty :: "'p geometry \<Rightarrow> bool"
  area :: "'p geometry \<Rightarrow> real"
  query :: "'p geometry list \<Rightarrow> 'p geometry \<Rightarrow> nat list"

fun extract_polygons :: "'p geometry \<Rightarrow> 'p list" where
  "extract_polygons (MultiPolygon geoms) = geoms"
| "extract_polygons (Polygon p) = [p]"
| "extract_polygons _ = []"

subsection \<open>The two layers and the output records\<close>

text \<open>The eight attribute columns read from the intervention layer (line 35).\<close>

record interv_attrs =
  EXERCICE :: "string option"
  ORIGINE :: "string option"
  AN_ORIGINE :: "string option"
  PERTURB :: "string option"
  AN_PERTURB :: "string option"
  REB_ESS1 :: "string option"
  REB_ESS2 :: "string option"
  REB_ESS3 :: "string option"

text \<open>A row of \<open>interv_fores_gdf\<close>: the attributes and the geometry.\<close>

record 'p interv_row = interv_attrs +
  interv_geometry :: "'p geometry"

text \<open>
  A feature of the inventory layer \<open>PEE_ORI_PROV\<close>, with the properties the loop reads.
  \<open>pee_geometry\<close> is \<open>shape(feature['geometry'])\<close>, the decoded geometry; a feature
  whose geometry cannot be decoded is outside the model.
\<close>

record 'p feature =
  pee_geometry :: "'p geometry"
  pee_CL_AGE :: "string option"
  pee_GR_ESS :: "string option"
  pee_CO_TER :: "string option"

text \<open>The properties of an output record (the schema of lines 112--127) and the record.\<close>

record properties = interv_attrs +
  CL_AGE :: "string option"
  GR_ESS :: "string option"
  CO_TER :: "string option"

record 'p feature_out = properties +
  geometry :: 'p

definition make_feature_out ::
  "'r interv_attrs_scheme \<Rightarrow> string option \<Rightarrow> string option \<Rightarrow> string option \<Rightarrow> 'p \<Rightarrow> 'p feature_out"
where
  "make_feature_out interv_row cl_age_reclass gr_ess_reclass co_ter poly =
     \<lparr> EXERCICE = EXERCICE interv_row,
       ORIGINE = ORIGINE interv_row,
       AN_ORIGINE = AN_ORIGINE interv_row,
       PERTURB = PERTURB interv_row,
       AN_PERTURB = AN_PERTURB interv_row,
       REB_ESS1 = REB_ESS1 interv_row,
       REB_ESS2 = REB_ESS2 interv_row,
       REB_ESS3 = REB_ESS3 interv_row,
       CL_AGE = cl_age_reclass,
       GR_ESS = gr_ess_reclass,
       CO_TER = co_ter,
       geometry = poly \<rparr>"

subsection \<open>The overlay loop with its buffered writer (lines 133--196)\<close>

datatype error = NameError | IndexError

definition BUFFER_SIZE :: nat where
  "BUFFER_SIZE = 5000"

text \<open>
  The mutable state of the loop: the list \<open>buffer\<close>, the counter \<open>count\<close> and the
  records handed to \<open>dst.writerecords\<close> so far, in order.
\<close>

record 'p writer =
  buffer :: "'p feature_out list"
  count :: nat
  dst :: "'p feature_out list"

definition writer_init :: "'p writer" where
  "writer_init = \<lparr> buffer = [], count = 0, dst = [] \<rparr>"

text \<open>Lines 186--187: \<open>buffer.append(feature_out); count += 1\<close>.\<close>

definition buffer_append :: "'p writer \<Rightarrow> 'p feature_out \<Rightarrow> 'p writer" where
  "buffer_append st feature_out = st\<lparr> buffer := buffer st @ [feature_out], count := count st + 1 \<rparr>"

text \<open>Lines 190--192: the buffer is written and emptied once it holds \<open>BUFFER_SIZE\<close> records.\<close>

definition flush_if_full :: "'p writer \<Rightarrow> 'p writer" where
  "flush_if_full st =
     (if length (buffer st) \<ge> BUFFER_SIZE
      then st\<lparr> dst := dst st @ buffer st, buffer := [] \<rparr>
      else st)"

text \<open>Lines 195--196: what is left in the buffer is written after the loop.\<close>

definition flush_remaining :: "'p writer \<Rightarrow> 'p writer" where
  "flush_remaining st =
     (if buffer st \<noteq> []
      then st\<lparr> dst := dst st @ buffer st, buffer := [] \<rparr>
      else st)"

text \<open>Lines 165--192: the loop over the polygons of one intersection.\<close>

fun overlay_polygons ::
  "'p engine \<Rightarrow> 'p interv_row \<Rightarrow> string option \<Rightarrow> string option \<Rightarrow> string option \<Rightarrow>
   'p list \<Rightarrow> 'p writer \<Rightarrow> 'p writer"
where
  "overlay_polygons eng interv_row cl_age_reclass gr_ess_reclass co_ter [] st = st"
| "overlay_polygons eng interv_row cl_age_reclass gr_ess_reclass co_ter (poly # polygons) st =
     overlay_polygons eng interv_row cl_age_reclass gr_ess_reclass co_ter polygons
       (if area eng (Polygon poly) < 1 then st
        else flush_if_full
               (buffer_append st
                  (make_feature_out interv_row cl_age_reclass gr_ess_reclass co_ter poly)))"

text \<open>
  Lines 153--192: the loop over the candidate indices of one inventory feature.
  \<open>interv_geoms\<close> was bound at line 43; \<open>interv_fores_gdf\<close> is \<open>None\<close> when the name is
  unbound at line 160. An index outside the array or the frame raises \<open>IndexError\<close>.
  An error leaves the loop with the state reached so far.
\<close>

fun overlay_candidates ::
  "'p engine \<Rightarrow> 'p geometry list \<Rightarrow> 'p interv_row list option \<Rightarrow>
   'p geometry \<Rightarrow> string option \<Rightarrow> string option \<Rightarrow> string option \<Rightarrow>
   nat list \<Rightarrow> 'p writer \<Rightarrow> (error \<times> 'p writer) + 'p writer"
where
  "overlay_candidates eng interv_geoms interv_fores_gdf pee_geom cl_age_reclass gr_ess_reclass co_ter
     [] st = Inr st"
| "overlay_candidates eng interv_geoms interv_fores_gdf pee_geom cl_age_reclass gr_ess_reclass co_ter
     (interv_idx # rest) st =
     (if interv_idx \<ge> length interv_geoms then Inl (IndexError, st)
      else
        let interv_geom = interv_geoms ! interv_idx;
            intersect_geom = intersection eng pee_geom interv_geom
        in
          if is_empty eng intersect_geom \<or> area eng intersect_geom < 1
          then overlay_candidates eng interv_geoms interv_fores_gdf pee_geom
                 cl_age_reclass gr_ess_reclass co_ter rest st
          else
            (case interv_fores_gdf of
               None \<Rightarrow> Inl (NameError, st)
             | Some gdf \<Rightarrow>
                 if interv_idx \<ge> length gdf then Inl (IndexError, st)
                 else
                   let interv_row = gdf ! interv_idx;
                       polygons = extract_polygons intersect_geom
                   in overlay_candidates eng interv_geoms interv_fores_gdf pee_geom
                        cl_age_reclass gr_ess_reclass co_ter rest
                        (overlay_polygons eng interv_row cl_age_reclass gr_ess_reclass co_ter
                           polygons st)))"

text \<open>Lines 137--192: the loop over the inventory features.\<close>

fun overlay_features ::
  "'p engine \<Rightarrow> lookup_table \<Rightarrow> 'p geometry list \<Rightarrow> 'p interv_row list option \<Rightarrow>
   'p feature list \<Rightarrow> 'p writer \<Rightarrow> (error \<times> 'p writer) + 'p writer"
where
  "overlay_features eng shade_tolerance interv_geoms interv_fores_gdf [] st = Inr st"
| "overlay_features eng shade_tolerance interv_geoms interv_fores_gdf (feature # rest) st =
     (let pee_geom = pee_geometry feature;
          cl_age_reclass = reclassify_cl_age (pee_CL_AGE feature);
          gr_ess_reclass = classify_shade_tolerance shade_tolerance (pee_GR_ESS feature);
          co_ter = pee_CO_TER feature;
          potential_idx = query eng interv_geoms pee_geom
      in
        if length potential_idx = 0
        then overlay_features eng shade_tolerance interv_geoms interv_fores_gdf rest st
        else
          (case overlay_candidates eng interv_geoms interv_fores_gdf pee_geom
                  cl_age_reclass gr_ess_reclass co_ter potential_idx st of
             Inl e \<Rightarrow> Inl e
           | Inr st' \<Rightarrow>
               overlay_features eng shade_tolerance interv_geoms interv_fores_gdf rest st'))"

text \<open>
  Lines 133--196: the output file is opened, the loop runs from the empty buffer, and
  the rest of the buffer is written. After an error the file holds what was written
  before it.
\<close>

definition overlay ::
  "'p engine \<Rightarrow> lookup_table \<Rightarrow> 'p geometry list \<Rightarrow> 'p interv_row list option \<Rightarrow>
   'p feature list \<Rightarrow> (error \<times> 'p writer) + 'p writer"
where
  "overlay eng shade_tolerance interv_geoms interv_fores_gdf src =
     (case overlay_features eng shade_tolerance interv_geoms interv_fores_gdf src writer_init of
        Inl e \<Rightarrow> Inl e
      | Inr st \<Rightarrow> Inr (flush_remaining st))"

subsection \<open>The sequence of accepted records\<close>

text \<open>
  Notions used to state the properties of the loop. \<open>candidate_records\<close> lists, in
  order, the records the body of the candidate loop appends for one inventory feature
  and one intervention index; \<open>accepted_records\<close> concatenates them over the
  candidates the index returns and over the inventory features.
\<close>

definition accept :: "'p writer \<Rightarrow> 'p feature_out \<Rightarrow> 'p writer" where
  "accept st feature_out = flush_if_full (buffer_append st feature_out)"

definition candidate_records ::
  "'p engine \<Rightarrow> lookup_table \<Rightarrow> 'p geometry list \<Rightarrow> 'p interv_row list \<Rightarrow>
   'p feature \<Rightarrow> nat \<Rightarrow> 'p feature_out list"
where
  "candidate_records eng shade_tolerance interv_geoms gdf feature interv_idx =
     (let intersect_geom = intersection eng (pee_geometry feature) (interv_geoms ! interv_idx)
      in if is_empty eng intersect_geom \<or> area eng intersect_geom < 1 then []
         else map (make_feature_out (gdf ! interv_idx)
                     (reclassify_cl_age (pee_CL_AGE feature))
                     (classify_shade_tolerance shade_tolerance (pee_GR_ESS feature))
                     (pee_CO_TER feature))
                (filter (\<lambda>poly. \<not> area eng (Polygon poly) < 1) (extract_polygons intersect_geom)))"

definition feature_records ::
  "'p engine \<Rightarrow> lookup_table \<Rightarrow> 'p geometry list \<Rightarrow> 'p interv_row list \<Rightarrow>
   'p feature \<Rightarrow> 'p feature_out list"
where
  "feature_records eng shade_tolerance interv_geoms gdf feature =
     concat (map (candidate_records eng shade_tolerance interv_geoms gdf feature)
               (query eng interv_geoms (pee_geometry feature)))"

definition accepted_records ::
  "'p engine \<Rightarrow> lookup_table \<Rightarrow> 'p geometry list \<Rightarrow> 'p interv_row list \<Rightarrow>
   'p feature list \<Rightarrow> 'p feature_out list"
where
  "accepted_records eng shade_tolerance interv_geoms gdf src =
     concat (map (feature_records eng shade_tolerance interv_geoms gdf) src)"


text \<open>The state a run of the loop ends in, whether it ended normally or by an error.\<close>

definition final_state :: "(error \<times> 'p writer) + 'p writer \<Rightarrow> 'p writer" where
  "final_state r = (case r of Inl (e, st) \<Rightarrow> st | Inr st \<Rightarrow> st)"

text \<open>
  The index is used as its contract allows: the candidates of every inventory feature are
  positions of the intervention layer.
\<close>

definition candidates_in_range ::
  "'p engine \<Rightarrow> 'p geometry list \<Rightarrow> 'p interv_row list \<Rightarrow> 'p feature list \<Rightarrow> bool"
where
  "candidates_in_range eng interv_geoms gdf src =
     list_all (\<lambda>feature.
        list_all (\<lambda>interv_idx. interv_idx < length interv_geoms \<and> interv_idx < length gdf)
          (query eng interv_geoms (pee_geometry feature))) src"

subsection \<open>The overlay of the two layers, pair by pair\<close>

text \<open>
  The records of all pairs of an inventory feature and an intervention, whether the
  index returns the pair or not.
\<close>

definition all_pairs_records ::
  "'p engine \<Rightarrow> lookup_table \<Rightarrow> 'p geometry list \<Rightarrow> 'p interv_row list \<Rightarrow>
   'p feature list \<Rightarrow> 'p feature_out list"
where
  "all_pairs_records eng shade_tolerance interv_geoms gdf src =
     concat (map (\<lambda>feature.
        concat (map (candidate_records eng shade_tolerance interv_geoms gdf feature)
                  [0..<length interv_geoms])) src)"

text \<open>
  The contract of the spatial index: for every inventory feature the query returns a
  set of positions of the intervention layer (no position twice) that holds every
  position whose exact intersection with the feature is not empty.
\<close>

definition index_contract :: "'p engine \<Rightarrow> 'p geometry list \<Rightarrow> 'p feature list \<Rightarrow> bool" where
  "index_contract eng interv_geoms src =
     list_all (\<lambda>feature.
        let potential_idx = query eng interv_geoms (pee_geometry feature) in
          distinct potential_idx \<and>
          list_all (\<lambda>interv_idx. interv_idx < length interv_geoms) potential_idx \<and>
          list_all (\<lambda>interv_idx.
              is_empty eng (intersection eng (pee_geometry feature) (interv_geoms ! interv_idx))
              \<or> interv_idx \<in> set potential_idx)
            [0..<length interv_geoms]) src"

text \<open>
  The single polygons a geometry is made of, as the specification speaks of them: those
  of a collection are the ones of its members.
\<close>

fun constituent_polygons :: "'p geometry \<Rightarrow> 'p list" where
  "constituent_polygons (Polygon p) = [p]"
| "constituent_polygons (MultiPolygon geoms) = geoms"
| "constituent_polygons (GeometryCollection gs) = concat (map constituent_polygons gs)"
| "constituent_polygons LineString = []"
| "constituent_polygons Point = []"

subsection \<open>Area and cut type of the persisted fragments (lines 214--240)\<close>

text \<open>
  The frame read back from the GeoPackage holds the geometry and the eleven properties
  of every record; steps 4 to 6 add the columns \<open>AREACUT\<close> and \<open>CUTTYPE\<close>, and the frame
  is saved with them.
\<close>

record 'p clipped_row = "'p feature_out" +
  AREACUT :: real
  CUTTYPE :: "string option"

text \<open>
  Lines 227--233. An entry of the dictionary without \<open>english_category\<close> gives the
  code itself (the default of \<open>.get\<close>).
\<close>

definition reclassify_cuttype :: "lookup_table \<Rightarrow> string option \<Rightarrow> string option" where
  "reclassify_cuttype cut_categories cuttype =
     (case cuttype of
        None \<Rightarrow> None
      | Some cuttype_str \<Rightarrow>
          (case cut_categories cuttype_str of
             Some entry \<Rightarrow>
               Some (case entry ''english_category'' of Some c \<Rightarrow> c | None \<Rightarrow> cuttype_str)
           | None \<Rightarrow> Some cuttype_str))"

text \<open>
  Step 4 (line 216), step 5 (lines 221--223: \<open>PERTURB\<close> if it is not null, else
  \<open>ORIGINE\<close>) and step 6 (line 235) on one row.
\<close>

definition area_and_cuttype ::
  "'p engine \<Rightarrow> lookup_table \<Rightarrow> 'p feature_out \<Rightarrow> 'p clipped_row"
where
  "area_and_cuttype eng cut_categories row =
     feature_out.extend row
       (clipped_row.fields
          (area eng (Polygon (geometry row)))
          (reclassify_cuttype cut_categories
             (case PERTURB row of Some perturb \<Rightarrow> Some perturb | None \<Rightarrow> ORIGINE row)))"

subsection \<open>Forest type and the two matrices (lines 242--326)\<close>

record 'p classified_row = "'p clipped_row" +
  FOREST_TYPE :: string

definition classify_forest_type :: "string option \<Rightarrow> string option \<Rightarrow> string" where
  "classify_forest_type cl_age gr_ess =
     (if cl_age = None \<or> gr_ess = Some ''Unknown'' \<or> gr_ess = None then ''Unknown/Unclassified''
      else if cl_age = Some ''Even'' \<and> gr_ess = Some ''Tol'' then ''Even/Tol''
      else if cl_age = Some ''Uneven'' \<and> gr_ess = Some ''Tol'' then ''Uneven/Tol''
      else if cl_age = Some ''Even'' \<and> gr_ess = Some ''Intol'' then ''Even/Intol''
      else if cl_age = Some ''Uneven'' \<and> gr_ess = Some ''Intol'' then ''Uneven/Intol''
      else ''Unknown/Unclassified'')"

definition forest_type :: "'p clipped_row \<Rightarrow> 'p classified_row" where
  "forest_type row =
     clipped_row.extend row
       (classified_row.fields (classify_forest_type (CL_AGE row) (GR_ESS row)))"

text \<open>
  A cell of a pandas frame: a float. The model has exact reals for the finite floats,
  the two infinities and NaN, with the arithmetic of pandas on them (a division by zero
  gives an infinity or NaN and raises nothing). The rounding error of machine arithmetic,
  overflow and the sign of zero are not modelled.
\<close>

datatype float64 = Finite real | PInf | NInf | NaN

definition signed_inf :: "real \<Rightarrow> float64" where
  "signed_inf s = (if s > 0 then PInf else if s < 0 then NInf else NaN)"

fun sign_of :: "float64 \<Rightarrow> real" where
  "sign_of (Finite x) = sgn x"
| "sign_of PInf = 1"
| "sign_of NInf = - 1"
| "sign_of NaN = 0"

fun fadd :: "float64 \<Rightarrow> float64 \<Rightarrow> float64" where
  "fadd NaN b = NaN"
| "fadd a NaN = NaN"
| "fadd (Finite x) (Finite y) = Finite (x + y)"
| "fadd PInf NInf = NaN"
| "fadd NInf PInf = NaN"
| "fadd PInf b = PInf"
| "fadd a PInf = PInf"
| "fadd NInf b = NInf"
| "fadd a NInf = NInf"

fun fmul :: "float64 \<Rightarrow> float64 \<Rightarrow> float64" where
  "fmul NaN b = NaN"
| "fmul a NaN = NaN"
| "fmul (Finite x) (Finite y) = Finite (x * y)"
| "fmul a b = signed_inf (sign_of a * sign_of b)"

fun fdiv :: "float64 \<Rightarrow> float64 \<Rightarrow> float64" where
  "fdiv NaN b = NaN"
| "fdiv a NaN = NaN"
| "fdiv (Finite x) (Finite y) = (if y = 0 then signed_inf (sgn x) else Finite (x / y))"
| "fdiv (Finite x) b = Finite 0"
| "fdiv a (Finite y) = signed_inf (sign_of a * (if y < 0 then - 1 else 1))"
| "fdiv a b = NaN"

text \<open>\<open>Series.sum\<close> with its default \<open>skipna=True\<close>.\<close>

definition fsum :: "float64 list \<Rightarrow> float64" where
  "fsum xs = foldl fadd (Finite 0) (filter (\<lambda>x. x \<noteq> NaN) xs)"

text \<open>
  \<open>round(d)\<close> of numpy: the value is scaled by \<open>10 ^ d\<close>, rounded to the nearest integer
  with ties to the even one, and scaled back.
\<close>

definition rint :: "real \<Rightarrow> real" where
  "rint x =
     (let f = \<lfloor>x\<rfloor>; d = x - of_int f
      in if d < 1 / 2 then of_int f
         else if d > 1 / 2 then of_int (f + 1)
         else if even f then of_int f else of_int (f + 1))"

definition round_decimals :: "nat \<Rightarrow> real \<Rightarrow> real" where
  "round_decimals d x = rint (x * 10 ^ d) / 10 ^ d"

fun fround :: "nat \<Rightarrow> float64 \<Rightarrow> float64" where
  "fround d (Finite x) = Finite (round_decimals d x)"
| "fround d a = a"

definition fillna :: "real \<Rightarrow> float64 \<Rightarrow> float64" where
  "fillna v a = (if a = NaN then Finite v else a)"

text \<open>A pandas frame of floats with string labels: row labels, column labels, cells.\<close>

record frame =
  df_index :: "string list"
  df_columns :: "string list"
  df_cell :: "string \<Rightarrow> string \<Rightarrow> float64"

definition frame_map :: "(float64 \<Rightarrow> float64) \<Rightarrow> frame \<Rightarrow> frame" where
  "frame_map f m = m\<lparr> df_cell := (\<lambda>r c. f (df_cell m r c)) \<rparr>"

definition total_area :: "('p, 'm) clipped_row_scheme list \<Rightarrow> real" where
  "total_area interv_clipped = sum_list (map AREACUT interv_clipped)"

text \<open>
  Line 267: \<open>groupby(['CUTTYPE', 'FOREST_TYPE'])['AREACUT'].sum().unstack(fill_value=0)\<close>.
  The rows whose \<open>CUTTYPE\<close> is null belong to no group (\<open>dropna=True\<close>); the labels of
  both axes are the values that occur, sorted; a pair that does not occur gets 0.
\<close>

definition matrix :: "'p classified_row list \<Rightarrow> frame" where
  "matrix interv_clipped =
     \<lparr> df_index = sort (remdups (List.map_filter CUTTYPE interv_clipped)),
       df_columns = sort (remdups (map FOREST_TYPE
                      (filter (\<lambda>row. CUTTYPE row \<noteq> None) interv_clipped))),
       df_cell = (\<lambda>r c. Finite (sum_list (map AREACUT
                      (filter (\<lambda>row. CUTTYPE row = Some r \<and> FOREST_TYPE row = c)
                         interv_clipped)))) \<rparr>"

text \<open>Line 268, before and after the rounding.\<close>

definition matrix_ratio :: "'p classified_row list \<Rightarrow> frame" where
  "matrix_ratio interv_clipped =
     frame_map (\<lambda>x. fmul (fdiv x (Finite (total_area interv_clipped))) (Finite 100))
       (matrix interv_clipped)"

definition forest_types :: "string list" where
  "forest_types = [''Even/Tol'', ''Uneven/Tol'', ''Even/Intol'', ''Uneven/Intol'',
                   ''Unknown/Unclassified'']"

text \<open>Lines 272--274: a forest type that is no column yet becomes a column of zeros.\<close>

fun ensure_columns :: "string list \<Rightarrow> frame \<Rightarrow> frame" where
  "ensure_columns [] m = m"
| "ensure_columns (ft # fts) m =
     ensure_columns fts
       (if ft \<notin> set (df_columns m)
        then m\<lparr> df_columns := df_columns m @ [ft],
                df_cell := (\<lambda>r c. if c = ft then Finite 0 else df_cell m r c) \<rparr>
        else m)"

text \<open>
  Lines 268--276: the percentage matrix that is exported to \<open>forest_cut_matrix.csv\<close>.
  Line 276 selects the five columns in their fixed order.
\<close>

definition matrix_pct :: "'p classified_row list \<Rightarrow> frame" where
  "matrix_pct interv_clipped =
     (ensure_columns forest_types (frame_map (fround 2) (matrix_ratio interv_clipped)))
       \<lparr> df_columns := forest_types \<rparr>"

text \<open>Lines 301--308: the column and the two rows that are removed, if they exist.\<close>

definition drop_column :: "string \<Rightarrow> frame \<Rightarrow> frame" where
  "drop_column name m =
     (if name \<in> set (df_columns m)
      then m\<lparr> df_columns := filter (\<lambda>c. c \<noteq> name) (df_columns m) \<rparr>
      else m)"

definition rows_to_remove :: "string list" where
  "rows_to_remove = [''Commercial thinning'', ''Others'']"

fun drop_rows :: "string list \<Rightarrow> frame \<Rightarrow> frame" where
  "drop_rows [] m = m"
| "drop_rows (row_name # names) m =
     drop_rows names
       (if row_name \<in> set (df_index m)
        then m\<lparr> df_index := filter (\<lambda>r. r \<noteq> row_name) (df_index m) \<rparr>
        else m)"

text \<open>
  Lines 290--308. The exported percentage matrix is read back (writing the frame to
  the file and reading it is the identity on its labels and cells), turned into areas
  again with the total area, and filtered.
\<close>

definition matrix_filtered :: "'p classified_row list \<Rightarrow> frame" where
  "matrix_filtered interv_clipped =
     drop_rows rows_to_remove
       (drop_column ''Unknown/Unclassified''
          (frame_map (\<lambda>x. fmul (fdiv x (Finite 100)) (Finite (total_area interv_clipped)))
             (matrix_pct interv_clipped)))"

text \<open>Line 311: \<open>sum(axis=0)\<close>, the sum of a column over the rows.\<close>

definition column_sum :: "frame \<Rightarrow> string \<Rightarrow> float64" where
  "column_sum m c = fsum (map (\<lambda>r. df_cell m r c) (df_index m))"

text \<open>Lines 311--317: every cell divided by the sum of its column, NaN replaced by 0, rounded.\<close>

definition matrix_prob :: "'p classified_row list \<Rightarrow> frame" where
  "matrix_prob interv_clipped =
     (let m = matrix_filtered interv_clipped
      in frame_map (fround 4)
           (frame_map (fillna 0)
              (m\<lparr> df_cell := (\<lambda>r c. fdiv (df_cell m r c) (column_sum m c)) \<rparr>)))"

text \<open>Steps 4 to 7 on the frame read from the GeoPackage.\<close>

definition classified :: "'p engine \<Rightarrow> lookup_table \<Rightarrow> 'p feature_out list \<Rightarrow> 'p classified_row list" where
  "classified eng cut_categories frame =
     map (\<lambda>row. forest_type (area_and_cuttype eng cut_categories row)) frame"

text \<open>All cells of a frame, row by row.\<close>

definition cells :: "frame \<Rightarrow> float64 list" where
  "cells m = concat (map (\<lambda>r. map (df_cell m r) (df_columns m)) (df_index m))"

text \<open>
  The percentage of the total area in one cell, as line 268 computes and rounds it; the
  exported matrix holds it in every cell when the total area is not zero.
\<close>

definition percentage :: "'p classified_row list \<Rightarrow> string \<Rightarrow> string \<Rightarrow> real" where
  "percentage interv_clipped r c =
     round_decimals 2
       (sum_list (map AREACUT
          (filter (\<lambda>row. CUTTYPE row = Some r \<and> FOREST_TYPE row = c) interv_clipped))
        / total_area interv_clipped * 100)"



subsection \<open>The script from top to bottom\<close>

text \<open>
  The file \<open>INTERV_FORES_PROV_CLIPPED.gpkg\<close>: it does not exist; it exists but cannot be
  opened or parsed; it holds the records the overlay wrote; or it holds the frame saved at
  line 239, with the columns \<open>AREACUT\<close> and \<open>CUTTYPE\<close>.
\<close>

datatype 'p gpkg =
    Missing
  | Unreadable
  | Fragments "'p feature_out list"
  | Saved "'p clipped_row list"


text \<open>
  \<open>pyogrio.read_dataframe(clipped_gpkg)\<close>; \<open>None\<close> stands for an exception. The columns
  \<open>AREACUT\<close> and \<open>CUTTYPE\<close> of a saved file are overwritten at lines 216 and 221 before
  anything reads them, so the frame is given by the geometry and the eleven properties of
  its rows.
\<close>

fun read_dataframe :: "'p gpkg \<Rightarrow> 'p feature_out list option" where
  "read_dataframe Missing = None"
| "read_dataframe Unreadable = None"
| "read_dataframe (Fragments records) = Some records"
| "read_dataframe (Saved rows) =
     Some (map (\<lambda>row. make_feature_out row (CL_AGE row) (GR_ESS row) (CO_TER row) (geometry row))
             rows)"

text \<open>
  Lines 30--39: the intervention layer is read, and the name \<open>interv_fores_gdf\<close> bound,
  only when the GeoPackage does not exist.
\<close>

definition load_forest_cut :: "'p interv_row list \<Rightarrow> 'p gpkg \<Rightarrow> 'p interv_row list option" where
  "load_forest_cut forest_cut file = (if file = Missing then Some forest_cut else None)"

text \<open>
  Lines 43--46, outside the conditional: \<open>interv_geoms = interv_fores_gdf.geometry.values\<close>
  and the index over it.
\<close>

definition build_spatial_index :: "'p interv_row list option \<Rightarrow> error + 'p geometry list" where
  "build_spatial_index interv_fores_gdf =
     (case interv_fores_gdf of
        None \<Rightarrow> Inl NameError
      | Some gdf \<Rightarrow> Inr (map interv_geometry gdf))"

text \<open>
  Lines 78--102: when the GeoPackage exists, \<open>interv_fores_gdf\<close> is deleted and the file
  is read; if reading raises, the file is unlinked and \<open>interv_clipped\<close> is \<open>None\<close>. The
  result is the file, the binding of \<open>interv_fores_gdf\<close> and \<open>interv_clipped\<close>.
\<close>

definition load_checkpoint ::
  "'p gpkg \<Rightarrow> 'p interv_row list option \<Rightarrow>
   error + ('p gpkg \<times> 'p interv_row list option \<times> 'p feature_out list option)"
where
  "load_checkpoint file interv_fores_gdf =
     (if file \<noteq> Missing then
        (case interv_fores_gdf of
           None \<Rightarrow> Inl NameError
         | Some gdf \<Rightarrow>
             (case read_dataframe file of
                Some interv_clipped \<Rightarrow> Inr (file, None, Some interv_clipped)
              | None \<Rightarrow> Inr (Missing, None, None)))
      else Inr (file, interv_fores_gdf, None))"

text \<open>
  Lines 104--212: when \<open>interv_clipped\<close> is \<open>None\<close> the overlay writes the GeoPackage
  (which holds what was written also when the loop raises), \<open>interv_fores_gdf\<close> is
  deleted and the file is read back; otherwise the frame of the checkpoint is used.
\<close>

definition overlay_phase ::
  "'p engine \<Rightarrow> lookup_table \<Rightarrow> 'p geometry list \<Rightarrow> 'p feature list \<Rightarrow>
   'p gpkg \<Rightarrow> 'p interv_row list option \<Rightarrow> 'p feature_out list option \<Rightarrow>
   'p gpkg \<times> (error + 'p feature_out list)"
where
  "overlay_phase eng shade_tolerance interv_geoms forest_inv file interv_fores_gdf interv_clipped =
     (case interv_clipped of
        Some frame \<Rightarrow> (file, Inr frame)
      | None \<Rightarrow>
          (case overlay eng shade_tolerance interv_geoms interv_fores_gdf forest_inv of
             Inl (e, st) \<Rightarrow> (Fragments (dst st), Inl e)
           | Inr st \<Rightarrow>
               (case interv_fores_gdf of
                  None \<Rightarrow> (Fragments (dst st), Inl NameError)
                | Some gdf \<Rightarrow> (Fragments (dst st), Inr (dst st)))))"

text \<open>The two matrices the script exports (lines 283 and 325).\<close>

record outputs =
  forest_cut_matrix :: frame
  forest_cut_matrix_probabilities :: frame

text \<open>
  The whole script: the result is the GeoPackage it leaves and either the error that
  ended it or the two exported matrices. Lines 214--240 compute area and cut type and
  save the frame; lines 242--326 build the matrices.
\<close>

definition run_script ::
  "'p engine \<Rightarrow> lookup_table \<Rightarrow> lookup_table \<Rightarrow> 'p interv_row list \<Rightarrow> 'p feature list \<Rightarrow>
   'p gpkg \<Rightarrow> 'p gpkg \<times> (error + outputs)"
where
  "run_script eng shade_tolerance cut_categories forest_cut forest_inv file =
     (let interv_fores_gdf = load_forest_cut forest_cut file in
      case build_spatial_index interv_fores_gdf of
        Inl e \<Rightarrow> (file, Inl e)
      | Inr interv_geoms \<Rightarrow>
          (case load_checkpoint file interv_fores_gdf of
             Inl e \<Rightarrow> (file, Inl e)
           | Inr (file1, interv_fores_gdf1, interv_clipped) \<Rightarrow>
               (case overlay_phase eng shade_tolerance interv_geoms forest_inv
                       file1 interv_fores_gdf1 interv_clipped of
                  (file2, Inl e) \<Rightarrow> (file2, Inl e)
                | (file2, Inr frame) \<Rightarrow>
                    let interv_clipped = map (area_and_cuttype eng cut_categories) frame;
                        classified_rows = map forest_type interv_clipped
                    in (Saved interv_clipped,
                        Inr \<lparr> forest_cut_matrix = matrix_pct classified_rows,
                              forest_cut_matrix_probabilities = matrix_prob classified_rows \<rparr>))))"

subsection \<open>A small instance\<close>

text \<open>
  Two inventory features and two interventions over polygons named by numbers, with a
  geometry library given by tables. The first feature meets the first intervention in
  a two-part intersection (parts of area 5 and 1/2) and the second in a polygon of area
  1/2; the second feature meets the first intervention in a collection made of a
  polygon of area 3 and a line, and the second in a polygon of area 2.
\<close>

definition ex_shade :: lookup_table where
  "ex_shade = [''SB'' \<mapsto> [''tolerance_ombre'' \<mapsto> Tolerant_label],
               ''BP'' \<mapsto> [''tolerance_ombre'' \<mapsto> Intolerant_label],
               ''EP'' \<mapsto> [''tolerance_ombre'' \<mapsto> ''Moyenne''],
               ''PG'' \<mapsto> Map.empty]"

definition ex_poly_area :: "nat \<Rightarrow> real" where
  "ex_poly_area p = (if p = 100 then 5 else if p = 101 then 1/2 else if p = 102 then 1/2
                     else if p = 103 then 3 else if p = 104 then 2 else 50)"

fun ex_area :: "nat geometry \<Rightarrow> real" where
  "ex_area (Polygon p) = ex_poly_area p"
| "ex_area (MultiPolygon ps) = sum_list (map ex_poly_area ps)"
| "ex_area (GeometryCollection gs) = sum_list (map ex_area gs)"
| "ex_area LineString = 0"
| "ex_area Point = 0"

definition ex_intersection :: "nat geometry \<Rightarrow> nat geometry \<Rightarrow> nat geometry" where
  "ex_intersection a b =
     (if a = Polygon 1 \<and> b = Polygon 10 then MultiPolygon [100, 101]
      else if a = Polygon 1 \<and> b = Polygon 11 then Polygon 102
      else if a = Polygon 2 \<and> b = Polygon 10 then GeometryCollection [Polygon 103, LineString]
      else if a = Polygon 2 \<and> b = Polygon 11 then Polygon 104
      else GeometryCollection [])"

definition ex_engine :: "nat engine" where
  "ex_engine = \<lparr> intersection = ex_intersection,
                  is_empty = (\<lambda>g. g = GeometryCollection []),
                  area = ex_area,
                  query = (\<lambda>geoms g. [0..<length geoms]) \<rparr>"

definition ex_gdf :: "nat interv_row list" where
  "ex_gdf =
     [\<lparr> EXERCICE = Some ''2015'', ORIGINE = None, AN_ORIGINE = None, PERTURB = Some ''EC'',
        AN_PERTURB = Some ''2014'', REB_ESS1 = None, REB_ESS2 = None, REB_ESS3 = None,
        interv_geometry = Polygon 10 \<rparr>,
      \<lparr> EXERCICE = Some ''2016'', ORIGINE = Some ''CT'', AN_ORIGINE = Some ''2015'', PERTURB = None,
        AN_PERTURB = None, REB_ESS1 = Some ''EPN'', REB_ESS2 = None, REB_ESS3 = None,
        interv_geometry = Polygon 11 \<rparr>]"

definition ex_src :: "nat feature list" where
  "ex_src =
     [\<lparr> pee_geometry = Polygon 1, pee_CL_AGE = Some ''60'', pee_GR_ESS = Some ''SBSB'',
        pee_CO_TER = None \<rparr>,
      \<lparr> pee_geometry = Polygon 2, pee_CL_AGE = Some ''VIN'', pee_GR_ESS = None,
        pee_CO_TER = Some ''DH'' \<rparr>]"

definition ex_records :: "nat feature_out list" where
  "ex_records =
     [\<lparr> EXERCICE = Some ''2015'', ORIGINE = None, AN_ORIGINE = None, PERTURB = Some ''EC'',
        AN_PERTURB = Some ''2014'', REB_ESS1 = None, REB_ESS2 = None, REB_ESS3 = None,
        CL_AGE = Some ''Even'', GR_ESS = Some ''Tol'', CO_TER = None, geometry = 100 \<rparr>,
      \<lparr> EXERCICE = Some ''2016'', ORIGINE = Some ''CT'', AN_ORIGINE = Some ''2015'', PERTURB = None,
        AN_PERTURB = None, REB_ESS1 = Some ''EPN'', REB_ESS2 = None, REB_ESS3 = None,
        CL_AGE = Some ''Uneven'', GR_ESS = None, CO_TER = Some ''DH'', geometry = 104 \<rparr>]"

subsection \<open>A small frame of fragments\<close>

text \<open>
  Three persisted fragments: two clearcuts of areas 1 and 99998, in an even-aged and an
  uneven-aged tolerant stand, and a fragment of area 1 whose disturbance and origin codes
  are both null.
\<close>

definition ex_cut :: lookup_table where
  "ex_cut = [''CPR'' \<mapsto> [''english_category'' \<mapsto> ''Clearcut''],
             ''EC'' \<mapsto> [''english_category'' \<mapsto> ''Commercial thinning''],
             ''PL'' \<mapsto> Map.empty]"

definition ex_frame_engine :: "nat engine" where
  "ex_frame_engine =
     \<lparr> intersection = (\<lambda>a b. a),
       is_empty = (\<lambda>g. False),
       area = (\<lambda>g. if g = Polygon 202 then 99998 else 1),
       query = (\<lambda>geoms g. []) \<rparr>"

definition ex_frame :: "nat feature_out list" where
  "ex_frame =
     [\<lparr> EXERCICE = Some ''2015'', ORIGINE = Some ''CPR'', AN_ORIGINE = Some ''2014'', PERTURB = None,
        AN_PERTURB = None, REB_ESS1 = None, REB_ESS2 = None, REB_ESS3 = None,
        CL_AGE = Some ''Even'', GR_ESS = Some ''Tol'', CO_TER = None, geometry = 201 \<rparr>,
      \<lparr> EXERCICE = Some ''2016'', ORIGINE = Some ''P'', AN_ORIGINE = Some ''1990'', PERTURB = Some ''CPR'',
        AN_PERTURB = Some ''2015'', REB_ESS1 = None, REB_ESS2 = None, REB_ESS3 = None,
        CL_AGE = Some ''Uneven'', GR_ESS = Some ''Tol'', CO_TER = None, geometry = 202 \<rparr>,
      \<lparr> EXERCICE = Some ''2017'', ORIGINE = None, AN_ORIGINE = None, PERTURB = None,
        AN_PERTURB = None, REB_ESS1 = None, REB_ESS2 = None, REB_ESS3 = None,
        CL_AGE = Some ''Even'', GR_ESS = Some ''Intol'', CO_TER = None, geometry = 203 \<rparr>]"

text \<open>The frame after steps 4 to 7.\<close>

definition ex_rows :: "nat classified_row list" where
  "ex_rows =
     [\<lparr> EXERCICE = Some ''2015'', ORIGINE = Some ''CPR'', AN_ORIGINE = Some ''2014'', PERTURB = None,
        AN_PERTURB = None, REB_ESS1 = None, REB_ESS2 = None, REB_ESS3 = None,
        CL_AGE = Some ''Even'', GR_ESS = Some ''Tol'', CO_TER = None, geometry = 201,
        AREACUT = 1, CUTTYPE = Some ''Clearcut'', FOREST_TYPE = ''Even/Tol'' \<rparr>,
      \<lparr> EXERCICE = Some ''2016'', ORIGINE = Some ''P'', AN_ORIGINE = Some ''1990'', PERTURB = Some ''CPR'',
        AN_PERTURB = Some ''2015'', REB_ESS1 = None, REB_ESS2 = None, REB_ESS3 = None,
        CL_AGE = Some ''Uneven'', GR_ESS = Some ''Tol'', CO_TER = None, geometry = 202,
        AREACUT = 99998, CUTTYPE = Some ''Clearcut'', FOREST_TYPE = ''Uneven/Tol'' \<rparr>,
      \<lparr> EXERCICE = Some ''2017'', ORIGINE = None, AN_ORIGINE = None, PERTURB = None,
        AN_PERTURB = None, REB_ESS1 = None, REB_ESS2 = None, REB_ESS3 = None,
        CL_AGE = Some ''Even'', GR_ESS = Some ''Intol'', CO_TER = None, geometry = 203,
        AREACUT = 1, CUTTYPE = None, FOREST_TYPE = ''Even/Intol'' \<rparr>]"

section \<open>Properties\<close>

subsection \<open>The loop as a fold over the accepted records\<close>

lemma BUFFER_SIZE_pos: "0 < BUFFER_SIZE" by (simp add: BUFFER_SIZE_def)

lemma overlay_polygons_fold:
  "overlay_polygons eng row a b c polygons st =
   fold (\<lambda>f s. accept s f)
     (map (make_feature_out row a b c) (filter (\<lambda>poly. \<not> area eng (Polygon poly) < 1) polygons)) st"
  by (induction polygons arbitrary: st) (simp_all add: accept_def)

lemma overlay_candidates_fold:
  "list_all (\<lambda>j. j < length interv_geoms \<and> j < length gdf) js \<Longrightarrow>
   overlay_candidates eng interv_geoms (Some gdf) (pee_geometry feature)
     (reclassify_cl_age (pee_CL_AGE feature))
     (classify_shade_tolerance shade (pee_GR_ESS feature)) (pee_CO_TER feature) js st =
   Inr (fold (\<lambda>f s. accept s f)
          (concat (map (candidate_records eng shade interv_geoms gdf feature) js)) st)"
proof (induction js arbitrary: st)
  case Nil
  then show ?case by simp
next
  case (Cons j js)
  then show ?case
    by (simp add: candidate_records_def Let_def overlay_polygons_fold)
qed

lemma overlay_features_fold:
  "candidates_in_range eng interv_geoms gdf src \<Longrightarrow>
   overlay_features eng shade interv_geoms (Some gdf) src st =
   Inr (fold (\<lambda>f s. accept s f) (accepted_records eng shade interv_geoms gdf src) st)"
proof (induction src arbitrary: st)
  case Nil
  then show ?case by (simp add: accepted_records_def)
next
  case (Cons feature src)
  from Cons.prems have rest: "candidates_in_range eng interv_geoms gdf src"
    and here: "list_all (\<lambda>j. j < length interv_geoms \<and> j < length gdf)
                 (query eng interv_geoms (pee_geometry feature))"
    by (simp_all add: candidates_in_range_def)
  show ?case
    using Cons.IH [OF rest] overlay_candidates_fold [OF here]
    by (simp add: Let_def accepted_records_def feature_records_def)
qed

subsection \<open>The buffered writer\<close>

lemma accept_records:
  "dst (accept st f) @ buffer (accept st f) = dst st @ buffer st @ [f]"
  by (simp add: accept_def flush_if_full_def buffer_append_def)

lemma accept_count: "count (accept st f) = count st + 1"
  by (simp add: accept_def flush_if_full_def buffer_append_def)

lemma accept_buffer_bound:
  "length (buffer st) < BUFFER_SIZE \<Longrightarrow> length (buffer (accept st f)) < BUFFER_SIZE"
  using BUFFER_SIZE_pos by (simp add: accept_def flush_if_full_def buffer_append_def)

lemma fold_accept_records:
  "dst (fold (\<lambda>f s. accept s f) fs st) @ buffer (fold (\<lambda>f s. accept s f) fs st)
   = dst st @ buffer st @ fs"
  by (induction fs arbitrary: st) (simp_all add: accept_records)

lemma fold_accept_count:
  "count (fold (\<lambda>f s. accept s f) fs st) = count st + length fs"
  by (induction fs arbitrary: st) (simp_all add: accept_count)

lemma fold_accept_buffer_bound:
  "length (buffer st) < BUFFER_SIZE \<Longrightarrow>
   length (buffer (fold (\<lambda>f s. accept s f) fs st)) < BUFFER_SIZE"
  by (induction fs arbitrary: st) (simp_all add: accept_buffer_bound)


lemma flush_remaining_dst: "dst (flush_remaining st) = dst st @ buffer st"
  by (simp add: flush_remaining_def)

lemma flush_remaining_buffer: "buffer (flush_remaining st) = []"
  by (simp add: flush_remaining_def)

lemma flush_remaining_count: "count (flush_remaining st) = count st"
  by (simp add: flush_remaining_def)


lemma overlay_no_error:
  assumes "candidates_in_range eng interv_geoms gdf src"
  shows "overlay eng shade interv_geoms (Some gdf) src =
         Inr (flush_remaining (fold (\<lambda>f s. accept s f)
                (accepted_records eng shade interv_geoms gdf src) writer_init))"
  by (simp add: overlay_def overlay_features_fold [OF assms])

lemma overlay_dst:
  assumes "candidates_in_range eng interv_geoms gdf src"
  shows "\<exists>st. overlay eng shade interv_geoms (Some gdf) src = Inr st \<and>
              dst st = accepted_records eng shade interv_geoms gdf src \<and>
              buffer st = [] \<and>
              count st = length (accepted_records eng shade interv_geoms gdf src)"
proof -
  let ?fs = "accepted_records eng shade interv_geoms gdf src"
  let ?st = "fold (\<lambda>f s. accept s f) ?fs (writer_init :: 'a writer)"
  have "dst ?st @ buffer ?st = ?fs"
    using fold_accept_records [of ?fs writer_init] by (simp add: writer_init_def)
  moreover have "count ?st = length ?fs"
    using fold_accept_count [of ?fs writer_init] by (simp add: writer_init_def)
  ultimately show ?thesis
    by (simp add: overlay_no_error [OF assms] flush_remaining_dst flush_remaining_buffer
          flush_remaining_count)
qed






subsection \<open>The candidates of the index against all pairs\<close>

lemma mset_concat_map_cong:
  "mset xs = mset ys \<Longrightarrow> mset (concat (map f xs)) = mset (concat (map f ys))"
proof -
  assume "mset xs = mset ys"
  then have "image_mset (\<lambda>x. mset (f x)) (mset xs) = image_mset (\<lambda>x. mset (f x)) (mset ys)"
    by simp
  then have "mset (map (\<lambda>x. mset (f x)) xs) = mset (map (\<lambda>x. mset (f x)) ys)"
    by simp
  then have "sum_list (map (\<lambda>x. mset (f x)) xs) = sum_list (map (\<lambda>x. mset (f x)) ys)"
    by (metis sum_mset_sum_list)
  then show ?thesis by (simp add: mset_concat comp_def)
qed

lemma concat_map_filter_empty:
  "(\<forall>x \<in> set xs. \<not> P x \<longrightarrow> f x = []) \<Longrightarrow> concat (map f (filter P xs)) = concat (map f xs)"
  by (induction xs) auto

lemma mset_distinct_upt:
  assumes "distinct q" and "\<forall>j \<in> set q. j < m"
  shows "mset q = mset (filter (\<lambda>j. j \<in> set q) [0..<m])"
proof -
  have "set q = set (filter (\<lambda>j. j \<in> set q) [0..<m])" using assms(2) by auto
  moreover have "distinct (filter (\<lambda>j. j \<in> set q) [0..<m])" by simp
  ultimately show ?thesis using assms(1) by (metis set_eq_iff_mset_eq_distinct)
qed

lemma candidate_records_empty:
  "is_empty eng (intersection eng (pee_geometry feature) (interv_geoms ! j)) \<Longrightarrow>
   candidate_records eng shade interv_geoms gdf feature j = []"
  by (simp add: candidate_records_def)

lemma feature_records_all_pairs:
  assumes "distinct (query eng interv_geoms (pee_geometry feature))"
    and "\<forall>j \<in> set (query eng interv_geoms (pee_geometry feature)). j < length interv_geoms"
    and "\<forall>j < length interv_geoms.
           is_empty eng (intersection eng (pee_geometry feature) (interv_geoms ! j))
           \<or> j \<in> set (query eng interv_geoms (pee_geometry feature))"
  shows "mset (feature_records eng shade interv_geoms gdf feature)
       = mset (concat (map (candidate_records eng shade interv_geoms gdf feature)
                  [0..<length interv_geoms]))"
proof -
  let ?q = "query eng interv_geoms (pee_geometry feature)"
  let ?f = "candidate_records eng shade interv_geoms gdf feature"
  have "mset (concat (map ?f ?q))
      = mset (concat (map ?f (filter (\<lambda>j. j \<in> set ?q) [0..<length interv_geoms])))"
    by (rule mset_concat_map_cong) (rule mset_distinct_upt [OF assms(1,2)])
  also have "concat (map ?f (filter (\<lambda>j. j \<in> set ?q) [0..<length interv_geoms]))
      = concat (map ?f [0..<length interv_geoms])"
    using assms(3) by (intro concat_map_filter_empty) (auto simp: candidate_records_empty)
  finally show ?thesis by (simp add: feature_records_def)
qed

lemma accepted_records_all_pairs:
  "index_contract eng interv_geoms src \<Longrightarrow>
   mset (accepted_records eng shade interv_geoms gdf src)
   = mset (all_pairs_records eng shade interv_geoms gdf src)"
proof (induction src)
  case Nil
  then show ?case by (simp add: accepted_records_def all_pairs_records_def)
next
  case (Cons feature src)
  from Cons.prems have rest: "index_contract eng interv_geoms src"
    by (simp add: index_contract_def)
  have here: "mset (feature_records eng shade interv_geoms gdf feature)
       = mset (concat (map (candidate_records eng shade interv_geoms gdf feature)
                  [0..<length interv_geoms]))"
    using Cons.prems
    by (intro feature_records_all_pairs) (auto simp: index_contract_def Let_def list_all_iff)
  from Cons.IH [OF rest] here show ?case
    by (simp add: accepted_records_def all_pairs_records_def)
qed

lemma index_contract_in_range:
  "index_contract eng (map interv_geometry gdf) src \<Longrightarrow>
   candidates_in_range eng (map interv_geometry gdf) gdf src"
  by (auto simp: index_contract_def candidates_in_range_def Let_def list_all_iff)

subsection \<open>The small instance, evaluated\<close>

lemma upt2: "[0..<2] = [0, 1]" by (simp add: upt_rec)

lemma ex_accepted: "accepted_records ex_engine ex_shade (map interv_geometry ex_gdf) ex_gdf ex_src = ex_records"
  by (simp add: accepted_records_def feature_records_def candidate_records_def ex_engine_def
      ex_gdf_def ex_src_def ex_records_def ex_intersection_def ex_poly_area_def upt2
      make_feature_out_def reclassify_cl_age_def age_classes_def classify_shade_tolerance_def
      ex_shade_def Tolerant_label_def Intolerant_label_def Let_def)

lemma ex_in_range: "candidates_in_range ex_engine (map interv_geometry ex_gdf) ex_gdf ex_src"
  by (simp add: candidates_in_range_def ex_engine_def ex_gdf_def ex_src_def upt2)

lemma ex_overlay: "overlay ex_engine ex_shade (map interv_geometry ex_gdf) (Some ex_gdf) ex_src
   = Inr \<lparr> buffer = [], count = 2, dst = ex_records \<rparr>"
  by (simp add: overlay_no_error [OF ex_in_range] ex_accepted ex_records_def accept_def flush_if_full_def
     buffer_append_def flush_remaining_def writer_init_def BUFFER_SIZE_def)


lemma ex_contract: "index_contract ex_engine (map interv_geometry ex_gdf) ex_src"
  by (simp add: index_contract_def ex_engine_def ex_gdf_def ex_src_def upt2 Let_def)

lemma ex_all_pairs:
  "all_pairs_records ex_engine ex_shade (map interv_geometry ex_gdf) ex_gdf ex_src = ex_records"
  by (simp add: all_pairs_records_def candidate_records_def ex_engine_def
      ex_gdf_def ex_src_def ex_records_def ex_intersection_def ex_poly_area_def upt2
      make_feature_out_def reclassify_cl_age_def age_classes_def classify_shade_tolerance_def
      ex_shade_def Tolerant_label_def Intolerant_label_def Let_def)

subsection \<open>Classifier\<close>

text \<open>
  Claim C9 (shade-tolerance classification). A null species-group code is classified as
  null. Otherwise the first two characters of the code are looked up in the tolerance
  dictionary: the result is \<open>Tol\<close> when the entry's tolerance string is the tolerant
  label, \<open>Intol\<close> when it is the intolerant label, and \<open>Unknown\<close> both when the prefix is
  not a key of the dictionary and when it is a key whose tolerance is anything else
  (or missing from the entry).
\<close>

theorem classify_shade_tolerance_cases:
  "classify_shade_tolerance d None = None \<and>
   (d (take 2 s) = None \<longrightarrow> classify_shade_tolerance d (Some s) = Some ''Unknown'') \<and>
   (\<forall>e. d (take 2 s) = Some e \<longrightarrow>
      (e ''tolerance_ombre'' = Some Tolerant_label \<longrightarrow>
         classify_shade_tolerance d (Some s) = Some ''Tol'') \<and>
      (e ''tolerance_ombre'' = Some Intolerant_label \<longrightarrow>
         classify_shade_tolerance d (Some s) = Some ''Intol'') \<and>
      (e ''tolerance_ombre'' \<noteq> Some Tolerant_label \<and> e ''tolerance_ombre'' \<noteq> Some Intolerant_label \<longrightarrow>
         classify_shade_tolerance d (Some s) = Some ''Unknown''))"
  by (auto simp: classify_shade_tolerance_def Let_def Tolerant_label_def Intolerant_label_def
           split: option.splits)

theorem classify_shade_tolerance_cases_witness:
  "classify_shade_tolerance ex_shade None = None \<and>
   classify_shade_tolerance ex_shade (Some ''ZZZ'') = Some ''Unknown'' \<and>
   classify_shade_tolerance ex_shade (Some ''SBSB'') = Some ''Tol'' \<and>
   classify_shade_tolerance ex_shade (Some ''BPEP'') = Some ''Intol'' \<and>
   classify_shade_tolerance ex_shade (Some ''EP'') = Some ''Unknown'' \<and>
   classify_shade_tolerance ex_shade (Some ''PGPG'') = Some ''Unknown''"
  using classify_shade_tolerance_cases [of ex_shade "''ZZZ''"]
    classify_shade_tolerance_cases [of ex_shade "''SBSB''"]
    classify_shade_tolerance_cases [of ex_shade "''BPEP''"]
    classify_shade_tolerance_cases [of ex_shade "''EP''"]
    classify_shade_tolerance_cases [of ex_shade "''PGPG''"]
  by (simp add: ex_shade_def Tolerant_label_def Intolerant_label_def)

subsection \<open>Overlay\<close>

text \<open>
  A first run (no GeoPackage yet), with candidates that are positions of the
  intervention layer: the script ends normally, leaves the saved frame of the accepted
  records and exports the two matrices.
\<close>

lemma run_script_first_run:
  assumes "candidates_in_range eng (map interv_geometry forest_cut) forest_cut forest_inv"
  shows "run_script eng shade_tolerance cut_categories forest_cut forest_inv Missing =
    (Saved (map (area_and_cuttype eng cut_categories)
              (accepted_records eng shade_tolerance (map interv_geometry forest_cut) forest_cut forest_inv)),
     Inr \<lparr> forest_cut_matrix =
             matrix_pct (classified eng cut_categories
               (accepted_records eng shade_tolerance (map interv_geometry forest_cut) forest_cut forest_inv)),
           forest_cut_matrix_probabilities =
             matrix_prob (classified eng cut_categories
               (accepted_records eng shade_tolerance (map interv_geometry forest_cut) forest_cut forest_inv)) \<rparr>)"
proof -
  from overlay_dst [OF assms, of shade_tolerance]
  obtain st where "overlay eng shade_tolerance (map interv_geometry forest_cut) (Some forest_cut) forest_inv = Inr st"
    "dst st = accepted_records eng shade_tolerance (map interv_geometry forest_cut) forest_cut forest_inv"
    by blast
  then show ?thesis
    by (simp add: run_script_def load_forest_cut_def build_spatial_index_def load_checkpoint_def
          overlay_phase_def classified_def comp_def Let_def)
qed






text \<open>
  Claim C1 (overlay completeness), as the code has it. Under the contract of the index
  (for every inventory feature the query returns positions of the intervention layer,
  none twice, among them every position whose exact intersection with the feature is not
  empty) the run ends normally and the file holds, up to order, exactly the records of
  all pairs of the two layers: for a pair whose intersection is not empty and has area
  at least 1, one record for each polygon of area at least 1 that \<open>extract_polygons\<close>
  yields from the intersection (the intersection itself when it is a polygon, its parts
  when it is a multi-part polygon, none for any other type of geometry), and nothing for
  any other pair. In particular each such record is in the file.
\<close>

theorem overlay_complete_deduplicated:
  assumes "index_contract eng (map interv_geometry gdf) src"
  shows "\<exists>st. overlay eng shade_tolerance (map interv_geometry gdf) (Some gdf) src = Inr st \<and>
     mset (dst st) = mset (all_pairs_records eng shade_tolerance (map interv_geometry gdf) gdf src) \<and>
     (\<forall>feature \<in> set src. \<forall>interv_idx < length gdf.
        \<not> is_empty eng (intersection eng (pee_geometry feature) (interv_geometry (gdf ! interv_idx))) \<longrightarrow>
        1 \<le> area eng (intersection eng (pee_geometry feature) (interv_geometry (gdf ! interv_idx))) \<longrightarrow>
        (\<forall>poly \<in> set (extract_polygons
                         (intersection eng (pee_geometry feature) (interv_geometry (gdf ! interv_idx)))).
           1 \<le> area eng (Polygon poly) \<longrightarrow>
           make_feature_out (gdf ! interv_idx)
             (reclassify_cl_age (pee_CL_AGE feature))
             (classify_shade_tolerance shade_tolerance (pee_GR_ESS feature))
             (pee_CO_TER feature) poly \<in> set (dst st)))"
proof -
  let ?geoms = "map interv_geometry gdf"
  let ?all = "all_pairs_records eng shade_tolerance ?geoms gdf src"
  obtain st where st: "overlay eng shade_tolerance ?geoms (Some gdf) src = Inr st"
    "dst st = accepted_records eng shade_tolerance ?geoms gdf src"
    using overlay_dst [OF index_contract_in_range [OF assms]] by blast
  have m: "mset (dst st) = mset ?all"
    using accepted_records_all_pairs [OF assms] st(2) by simp
  then have s: "set (dst st) = set ?all" by (metis set_mset_mset)
  have "make_feature_out (gdf ! j) (reclassify_cl_age (pee_CL_AGE feature))
             (classify_shade_tolerance shade_tolerance (pee_GR_ESS feature))
             (pee_CO_TER feature) poly \<in> set ?all"
    if "feature \<in> set src" "j < length gdf"
      "\<not> is_empty eng (intersection eng (pee_geometry feature) (interv_geometry (gdf ! j)))"
      "1 \<le> area eng (intersection eng (pee_geometry feature) (interv_geometry (gdf ! j)))"
      "poly \<in> set (extract_polygons (intersection eng (pee_geometry feature) (interv_geometry (gdf ! j))))"
      "1 \<le> area eng (Polygon poly)"
    for feature j poly
  proof -
    have "make_feature_out (gdf ! j) (reclassify_cl_age (pee_CL_AGE feature))
             (classify_shade_tolerance shade_tolerance (pee_GR_ESS feature))
             (pee_CO_TER feature) poly
          \<in> set (candidate_records eng shade_tolerance ?geoms gdf feature j)"
      using that by (auto simp: candidate_records_def Let_def)
    moreover have "j \<in> set [0..<length ?geoms]" using that(2) by simp
    ultimately have "make_feature_out (gdf ! j) (reclassify_cl_age (pee_CL_AGE feature))
             (classify_shade_tolerance shade_tolerance (pee_GR_ESS feature))
             (pee_CO_TER feature) poly
          \<in> set (concat (map (candidate_records eng shade_tolerance ?geoms gdf feature)
                  [0..<length ?geoms]))"
      unfolding set_concat set_map by (intro UN_I [of "candidate_records eng shade_tolerance ?geoms gdf feature j"] imageI)
    then show ?thesis
      using that(1) unfolding all_pairs_records_def set_concat set_map 
      by (intro UN_I [of "concat (map (candidate_records eng shade_tolerance ?geoms gdf feature)
                  [0..<length ?geoms])"] image_eqI [of _ _ feature]) simp_all

  qed
  then have mem: "\<forall>feature \<in> set src. \<forall>interv_idx < length gdf.
        \<not> is_empty eng (intersection eng (pee_geometry feature) (interv_geometry (gdf ! interv_idx))) \<longrightarrow>
        1 \<le> area eng (intersection eng (pee_geometry feature) (interv_geometry (gdf ! interv_idx))) \<longrightarrow>
        (\<forall>poly \<in> set (extract_polygons
                         (intersection eng (pee_geometry feature) (interv_geometry (gdf ! interv_idx)))).
           1 \<le> area eng (Polygon poly) \<longrightarrow>
           make_feature_out (gdf ! interv_idx)
             (reclassify_cl_age (pee_CL_AGE feature))
             (classify_shade_tolerance shade_tolerance (pee_GR_ESS feature))
             (pee_CO_TER feature) poly \<in> set (dst st))"
    unfolding s by simp
  show ?thesis
    by (rule exI [of _ st]) (intro conjI st(1) m mem)
qed

theorem overlay_complete_deduplicated_witness:
  "index_contract ex_engine (map interv_geometry ex_gdf) ex_src \<and>
   all_pairs_records ex_engine ex_shade (map interv_geometry ex_gdf) ex_gdf ex_src = ex_records \<and>
   mset (dst (final_state (overlay ex_engine ex_shade (map interv_geometry ex_gdf) (Some ex_gdf) ex_src)))
     = mset ex_records \<and>
   ex_records ! 1
     \<in> set (dst (final_state (overlay ex_engine ex_shade (map interv_geometry ex_gdf) (Some ex_gdf) ex_src)))"
proof -
  let ?r = "overlay ex_engine ex_shade (map interv_geometry ex_gdf) (Some ex_gdf) ex_src"
  from overlay_complete_deduplicated [OF ex_contract, of ex_shade]
  obtain st where st: "?r = Inr st"
    and m: "mset (dst st) = mset (all_pairs_records ex_engine ex_shade (map interv_geometry ex_gdf) ex_gdf ex_src)"
    and mem: "\<forall>feature \<in> set ex_src. \<forall>interv_idx < length ex_gdf.
        \<not> is_empty ex_engine (intersection ex_engine (pee_geometry feature) (interv_geometry (ex_gdf ! interv_idx))) \<longrightarrow>
        1 \<le> area ex_engine (intersection ex_engine (pee_geometry feature) (interv_geometry (ex_gdf ! interv_idx))) \<longrightarrow>
        (\<forall>poly \<in> set (extract_polygons
                         (intersection ex_engine (pee_geometry feature) (interv_geometry (ex_gdf ! interv_idx)))).
           1 \<le> area ex_engine (Polygon poly) \<longrightarrow>
           make_feature_out (ex_gdf ! interv_idx)
             (reclassify_cl_age (pee_CL_AGE feature))
             (classify_shade_tolerance ex_shade (pee_GR_ESS feature))
             (pee_CO_TER feature) poly \<in> set (dst st))"
    by blast
  have f: "final_state ?r = st" by (simp add: st final_state_def)
  have "ex_src ! 1 \<in> set ex_src" by (simp add: ex_src_def)
  moreover have "(1::nat) < length ex_gdf" by (simp add: ex_gdf_def)
  ultimately have "\<not> is_empty ex_engine (intersection ex_engine (pee_geometry (ex_src ! 1)) (interv_geometry (ex_gdf ! 1))) \<longrightarrow>
        1 \<le> area ex_engine (intersection ex_engine (pee_geometry (ex_src ! 1)) (interv_geometry (ex_gdf ! 1))) \<longrightarrow>
        (\<forall>poly \<in> set (extract_polygons
                         (intersection ex_engine (pee_geometry (ex_src ! 1)) (interv_geometry (ex_gdf ! 1)))).
           1 \<le> area ex_engine (Polygon poly) \<longrightarrow>
           make_feature_out (ex_gdf ! 1)
             (reclassify_cl_age (pee_CL_AGE (ex_src ! 1)))
             (classify_shade_tolerance ex_shade (pee_GR_ESS (ex_src ! 1)))
             (pee_CO_TER (ex_src ! 1)) poly \<in> set (dst st))"
    using mem by blast
  then have "ex_records ! 1 \<in> set (dst st)"
    by (simp add: ex_engine_def ex_gdf_def ex_src_def ex_records_def ex_intersection_def
        ex_poly_area_def make_feature_out_def reclassify_cl_age_def age_classes_def
        classify_shade_tolerance_def)
  with m f ex_contract ex_all_pairs show ?thesis by simp
qed

text \<open>
  The claim as it is worded fails for an intersection that is a geometry collection: in
  the small instance the second feature meets the first intervention in a collection of
  a polygon of area 3 and a line; the collection is not empty and has area 3, the polygon
  numbered 103 is one of its constituent polygons and has area 3, and the index returns
  the pair, yet no record of the file holds that polygon.
\<close>

theorem overlay_drops_polygon_of_collection:
  "index_contract ex_engine (map interv_geometry ex_gdf) ex_src \<and>
   intersection ex_engine (pee_geometry (ex_src ! 1)) (interv_geometry (ex_gdf ! 0))
     = GeometryCollection [Polygon 103, LineString] \<and>
   \<not> is_empty ex_engine (GeometryCollection [Polygon 103, LineString]) \<and>
   1 \<le> area ex_engine (GeometryCollection [Polygon 103, LineString]) \<and>
   103 \<in> set (constituent_polygons (GeometryCollection [Polygon 103, LineString])) \<and>
   1 \<le> area ex_engine (Polygon 103) \<and>
   overlay ex_engine ex_shade (map interv_geometry ex_gdf) (Some ex_gdf) ex_src
     = Inr \<lparr> buffer = [], count = 2, dst = ex_records \<rparr> \<and>
   map geometry ex_records = [100, 104]"
  by (simp add: ex_contract ex_overlay)
     (simp add: ex_engine_def ex_gdf_def ex_src_def ex_records_def ex_intersection_def
        ex_poly_area_def)




subsection \<open>Aggregation: helper facts\<close>

lemma CUTTYPE_area_and_cuttype:
  "CUTTYPE (area_and_cuttype eng cc row) =
     reclassify_cuttype cc (case PERTURB row of Some perturb \<Rightarrow> Some perturb | None \<Rightarrow> ORIGINE row)"
  by (simp add: area_and_cuttype_def feature_out.extend_def clipped_row.fields_def)

lemma AREACUT_area_and_cuttype:
  "AREACUT (area_and_cuttype eng cc row) = area eng (Polygon (geometry row))"
  by (simp add: area_and_cuttype_def feature_out.extend_def clipped_row.fields_def)

lemma forest_type_fields:
  "CUTTYPE (forest_type row) = CUTTYPE row"
  "AREACUT (forest_type row) = AREACUT row"
  "FOREST_TYPE (forest_type row) = classify_forest_type (CL_AGE row) (GR_ESS row)"
  by (simp_all add: forest_type_def clipped_row.extend_def classified_row.fields_def)

lemma sum_list_single_hit:
  "distinct ks \<Longrightarrow> k0 \<in> set ks \<Longrightarrow> (\<Sum>k\<leftarrow>ks. if k = k0 then a else (0::real)) = a"
proof (induction ks)
  case Nil
  then show ?case by simp
next
  case (Cons k ks)
  show ?case
  proof (cases "k = k0")
    case True
    with Cons.prems have "k0 \<notin> set ks" by simp
    then have "(\<Sum>k\<leftarrow>ks. if k = k0 then a else (0::real)) = 0"
      by (induction ks) auto
    with True show ?thesis by simp
  next
    case False
    with Cons show ?thesis by simp
  qed
qed

lemma group_sum:
  assumes "distinct ks" and "\<forall>x \<in> set xs. key x \<in> set ks"
  shows "(\<Sum>k\<leftarrow>ks. sum_list (map f (filter (\<lambda>x. key x = k) xs))) = (\<Sum>x\<leftarrow>xs. (f x :: real))"
  using assms(2)
proof (induction xs)
  case Nil
  then show ?case by simp
next
  case (Cons x xs)
  have "(\<Sum>k\<leftarrow>ks. sum_list (map f (filter (\<lambda>x. key x = k) (x # xs))))
      = (\<Sum>k\<leftarrow>ks. (if k = key x then f x else 0) + sum_list (map f (filter (\<lambda>x. key x = k) xs)))"
    by (intro arg_cong [where f = sum_list] map_cong) auto
  also have "\<dots> = (\<Sum>k\<leftarrow>ks. if k = key x then f x else 0)
                 + (\<Sum>k\<leftarrow>ks. sum_list (map f (filter (\<lambda>x. key x = k) xs)))"
    by (simp add: sum_list_addf)
  also have "\<dots> = f x + (\<Sum>x\<leftarrow>xs. f x)"
    using Cons sum_list_single_hit [OF assms(1), of "key x" "f x"] by simp
  finally show ?case by simp
qed

lemma sum_list_split:
  "(\<Sum>x\<leftarrow>xs. (f x :: real)) = sum_list (map f (filter P xs)) + sum_list (map f (filter (\<lambda>x. \<not> P x) xs))"
  by (induction xs) auto

lemma fsum_Finite: "fsum (map Finite xs) = Finite (sum_list xs)"
proof -
  have "foldl fadd (Finite a) (map Finite xs) = Finite (a + sum_list xs)" for a
    by (induction xs arbitrary: a) (simp_all add: add.assoc)
  from this [of 0] show ?thesis
    by (simp add: fsum_def) 
qed

lemma matrix_index_set:
  "set (df_index (matrix rows)) = {c. \<exists>row \<in> set rows. CUTTYPE row = Some c}"
  by (force simp: matrix_def List.map_filter_def image_iff)

lemma matrix_index_distinct: "distinct (df_index (matrix rows))"
  by (simp add: matrix_def)

lemma matrix_columns_set:
  "set (df_columns (matrix rows)) = FOREST_TYPE ` {row \<in> set rows. CUTTYPE row \<noteq> None}"
  by (auto simp: matrix_def)

lemma matrix_columns_distinct: "distinct (df_columns (matrix rows))"
  by (simp add: matrix_def)

lemma matrix_cell:
  "df_cell (matrix rows) =
   (\<lambda>r c. Finite (sum_list (map AREACUT (filter (\<lambda>row. CUTTYPE row = Some r \<and> FOREST_TYPE row = c) rows))))"
  by (simp add: matrix_def)

lemma sum_list_concat_map:
  "sum_list (concat (map f xs)) = (\<Sum>x\<leftarrow>xs. sum_list (f x :: real list))"
  by (induction xs) auto

lemma matrix_row_sum:
  "(\<Sum>c\<leftarrow>df_columns (matrix rows).
      sum_list (map AREACUT (filter (\<lambda>row. CUTTYPE row = Some r \<and> FOREST_TYPE row = c) rows)))
   = sum_list (map AREACUT (filter (\<lambda>row. CUTTYPE row = Some r) rows))"
proof -
  let ?xs = "filter (\<lambda>row. CUTTYPE row = Some r) rows"
  have "\<forall>x \<in> set ?xs. FOREST_TYPE x \<in> set (df_columns (matrix rows))"
    by (auto simp: matrix_columns_set)
  from group_sum [OF matrix_columns_distinct this, of AREACUT]
  show ?thesis by (simp add: conj_commute)
qed

lemma matrix_total_sum:
  "(\<Sum>r\<leftarrow>df_index (matrix rows). sum_list (map AREACUT (filter (\<lambda>row. CUTTYPE row = Some r) rows)))
   = sum_list (map AREACUT (filter (\<lambda>row. CUTTYPE row \<noteq> None) rows))"
proof -
  let ?xs = "filter (\<lambda>row. CUTTYPE row \<noteq> None) rows"
  have "\<forall>x \<in> set ?xs. the (CUTTYPE x) \<in> set (df_index (matrix rows))"
    by (auto simp: matrix_index_set)
  from group_sum [OF matrix_index_distinct this, of AREACUT]
  have "(\<Sum>r\<leftarrow>df_index (matrix rows).
           sum_list (map AREACUT (filter (\<lambda>x. the (CUTTYPE x) = r) ?xs)))
        = sum_list (map AREACUT ?xs)" .
  moreover have "filter (\<lambda>x. the (CUTTYPE x) = r) ?xs = filter (\<lambda>row. CUTTYPE row = Some r) rows" for r
    by (induction rows) auto
  ultimately show ?thesis by simp
qed

lemma cells_matrix:
  "cells (matrix rows) =
   map Finite (concat (map (\<lambda>r. map (\<lambda>c. sum_list (map AREACUT
       (filter (\<lambda>row. CUTTYPE row = Some r \<and> FOREST_TYPE row = c) rows))) (df_columns (matrix rows)))
     (df_index (matrix rows))))"
  by (simp add: cells_def map_concat comp_def matrix_cell)

lemma sum_cells_matrix:
  "fsum (cells (matrix rows))
   = Finite (sum_list (map AREACUT (filter (\<lambda>row. CUTTYPE row \<noteq> None) rows)))"
proof -
  have "fsum (cells (matrix rows))
      = Finite (\<Sum>r\<leftarrow>df_index (matrix rows). \<Sum>c\<leftarrow>df_columns (matrix rows).
          sum_list (map AREACUT (filter (\<lambda>row. CUTTYPE row = Some r \<and> FOREST_TYPE row = c) rows)))"
    unfolding cells_matrix fsum_Finite by (simp add: sum_list_concat_map)
  then show ?thesis by (simp add: matrix_row_sum matrix_total_sum)
qed

lemma ratio_cell:
  "total_area rows \<noteq> 0 \<Longrightarrow>
   df_cell (matrix_ratio rows) =
   (\<lambda>r c. Finite (sum_list (map AREACUT (filter (\<lambda>row. CUTTYPE row = Some r \<and> FOREST_TYPE row = c) rows))
           / total_area rows * 100))"
  by (simp add: matrix_ratio_def frame_map_def matrix_cell)

lemma ratio_labels:
  "df_index (matrix_ratio rows) = df_index (matrix rows)"
  "df_columns (matrix_ratio rows) = df_columns (matrix rows)"
  by (simp_all add: matrix_ratio_def frame_map_def)

lemma sum_list_scale:
  "(\<Sum>x\<leftarrow>xs. f x / t * k) = (\<Sum>x\<leftarrow>xs. (f x :: real)) / t * k"
  by (induction xs) (simp_all add: add_divide_distrib distrib_right)

lemma sum_cells_ratio:
  assumes "total_area rows \<noteq> 0"
  shows "fsum (cells (matrix_ratio rows))
   = Finite (sum_list (map AREACUT (filter (\<lambda>row. CUTTYPE row \<noteq> None) rows)) / total_area rows * 100)"
proof -
  let ?a = "\<lambda>r c. sum_list (map AREACUT (filter (\<lambda>row. CUTTYPE row = Some r \<and> FOREST_TYPE row = c) rows))"
  have "cells (matrix_ratio rows)
     = map Finite (concat (map (\<lambda>r. map (\<lambda>c. ?a r c / total_area rows * 100) (df_columns (matrix rows)))
         (df_index (matrix rows))))"
    by (simp add: cells_def map_concat comp_def ratio_cell [OF assms] ratio_labels)
  then have "fsum (cells (matrix_ratio rows))
     = Finite (\<Sum>r\<leftarrow>df_index (matrix rows). \<Sum>c\<leftarrow>df_columns (matrix rows). ?a r c / total_area rows * 100)"
    by (simp only: fsum_Finite sum_list_concat_map map_map comp_def)
  also have "(\<Sum>r\<leftarrow>df_index (matrix rows). \<Sum>c\<leftarrow>df_columns (matrix rows). ?a r c / total_area rows * 100)
     = (\<Sum>r\<leftarrow>df_index (matrix rows). \<Sum>c\<leftarrow>df_columns (matrix rows). ?a r c) / total_area rows * 100"
    by (simp only: sum_list_scale)
  finally show ?thesis by (simp add: matrix_row_sum matrix_total_sum)
qed

lemma sum_list_pos_member:
  assumes "\<forall>x \<in> set xs. 0 < (f x :: real)" and "x0 \<in> set xs"
  shows "0 < sum_list (map f xs)"
proof -
  have nonneg: "0 \<le> sum_list (map f ys)" if "\<forall>x \<in> set ys. 0 < f x" for ys
    using that by (intro sum_list_nonneg) (auto intro: less_imp_le)
  obtain ys zs where xs: "xs = ys @ x0 # zs"
    using assms(2) by (auto simp: in_set_conv_decomp)
  have "0 \<le> sum_list (map f ys)" "0 \<le> sum_list (map f zs)" "0 < f x0"
    using assms(1) by (auto simp: xs intro: nonneg)
  then show ?thesis by (simp add: xs add_nonneg_pos add_pos_nonneg)
qed

lemma ratio_sum_below_100:
  assumes pos: "\<forall>row \<in> set rows. 0 < AREACUT row"
    and mem: "row0 \<in> set rows" and null: "CUTTYPE row0 = None"
  shows "\<exists>s. fsum (cells (matrix_ratio rows)) = Finite s \<and> s < 100"
proof -
  let ?some = "sum_list (map AREACUT (filter (\<lambda>row. CUTTYPE row \<noteq> None) rows))"
  let ?none = "sum_list (map AREACUT (filter (\<lambda>row. \<not> CUTTYPE row \<noteq> None) rows))"
  have split: "total_area rows = ?some + ?none"
    unfolding total_area_def by (rule sum_list_split)
  have "row0 \<in> set (filter (\<lambda>row. \<not> CUTTYPE row \<noteq> None) rows)"
    using mem null by simp
  then have none_pos: "0 < ?none"
    using pos by (intro sum_list_pos_member [where ?x0.0 = row0]) auto
  have some_nonneg: "0 \<le> ?some"
    using pos by (intro sum_list_nonneg) (auto intro: less_imp_le)
  have tot: "0 < total_area rows" using split none_pos some_nonneg by linarith
  then have "?some / total_area rows < 1"
    using split none_pos by simp
  moreover have "x * 100 < 100" if "x < 1" for x :: real
    using that by simp
  ultimately have "?some / total_area rows * 100 < 100" by blast
  moreover have "fsum (cells (matrix_ratio rows)) = Finite (?some / total_area rows * 100)"
    using tot by (intro sum_cells_ratio) simp
  ultimately show ?thesis by blast
qed

lemma classified_fields:
  "CUTTYPE (forest_type (area_and_cuttype eng cc row)) = CUTTYPE (area_and_cuttype eng cc row)"
  "AREACUT (forest_type (area_and_cuttype eng cc row)) = area eng (Polygon (geometry row))"
  by (simp_all add: forest_type_fields AREACUT_area_and_cuttype)

lemma total_area_classified:
  "total_area (classified eng cc frame) = (\<Sum>row\<leftarrow>frame. area eng (Polygon (geometry row)))"
  by (simp add: total_area_def classified_def comp_def classified_fields)

lemma ensure_columns_index: "df_index (ensure_columns fts m) = df_index m"
  by (induction fts arbitrary: m) simp_all

lemma ensure_columns_cell:
  "df_cell (ensure_columns fts m) r c =
   (if c \<in> set fts \<and> c \<notin> set (df_columns m) then Finite 0 else df_cell m r c)"
  by (induction fts arbitrary: m) auto

lemma drop_rows_index:
  "df_index (drop_rows names m) = filter (\<lambda>r. r \<notin> set names) (df_index m)"
proof (induction names arbitrary: m)
  case Nil
  then show ?case by simp
next
  case (Cons n names)
  show ?case by (auto simp: Cons.IH intro!: filter_cong)
qed


lemma matrix_pct_index: "df_index (matrix_pct rows) = df_index (matrix rows)"
  by (simp add: matrix_pct_def ensure_columns_index frame_map_def ratio_labels)

lemma matrix_pct_columns: "df_columns (matrix_pct rows) = forest_types"
  by (simp add: matrix_pct_def)

lemma matrix_filtered_index:
  "df_index (matrix_filtered rows) = filter (\<lambda>r. r \<notin> set rows_to_remove) (df_index (matrix rows))"
  by (simp add: matrix_filtered_def drop_rows_index drop_column_def frame_map_def matrix_pct_index)

lemma matrix_prob_index:
  "df_index (matrix_prob rows) = filter (\<lambda>r. r \<notin> set rows_to_remove) (df_index (matrix rows))"
  by (simp add: matrix_prob_def Let_def frame_map_def matrix_filtered_index)

lemma ex_classified: "classified ex_frame_engine ex_cut ex_frame = ex_rows"
  by (simp add: classified_def ex_frame_def ex_rows_def forest_type_def area_and_cuttype_def
        feature_out.extend_def clipped_row.fields_def clipped_row.extend_def
        classified_row.fields_def ex_frame_engine_def ex_cut_def reclassify_cuttype_def
        classify_forest_type_def)

lemma rint_simps: "rint 0 = 0" "rint (1 / 10) = 0" "rint (49999 / 5) = 10000"
  by (simp_all add: rint_def Let_def)

lemma ex_total: "total_area ex_rows = 100000"
  by (simp add: total_area_def ex_rows_def)

lemma ex_matrix_labels:
  "df_index (matrix ex_rows) = [''Clearcut'']"
  "df_columns (matrix ex_rows) = [''Even/Tol'', ''Uneven/Tol'']"
  by (simp_all add: matrix_def ex_rows_def)


lemma rint_zero: "rint 0 = 0"
  by (simp add: rint_def)

lemma round_decimals_zero: "round_decimals d 0 = 0"
  by (simp add: round_decimals_def rint_zero)






lemma no_column_no_area:
  assumes "c \<notin> set (df_columns (matrix rows))"
  shows "filter (\<lambda>row. CUTTYPE row = Some r \<and> FOREST_TYPE row = c) rows = []"
  using assms by (auto simp: matrix_columns_set filter_empty_conv)

lemma matrix_pct_cell:
  assumes "total_area rows \<noteq> 0"
  shows "df_cell (matrix_pct rows) r c = Finite (percentage rows r c)"
proof (cases "c \<in> set (df_columns (matrix rows))")
  case True
  then show ?thesis
    by (simp add: matrix_pct_def ensure_columns_cell frame_map_def ratio_labels
          ratio_cell [OF assms] percentage_def)
next
  case False
  then show ?thesis
    by (simp add: matrix_pct_def ensure_columns_cell frame_map_def ratio_labels
          ratio_cell [OF assms] percentage_def no_column_no_area round_decimals_zero)
qed












lemma ex_percentage:
  "percentage ex_rows ''Clearcut'' ''Even/Tol'' = 0"
  "percentage ex_rows ''Clearcut'' ''Uneven/Tol'' = 100"
  "percentage ex_rows ''Clearcut'' ''Even/Intol'' = 0"
  "percentage ex_rows ''Clearcut'' ''Uneven/Intol'' = 0"
  "percentage ex_rows ''Clearcut'' ''Unknown/Unclassified'' = 0"
  by (simp_all add: percentage_def ex_total round_decimals_def rint_def Let_def)
     (simp_all add: ex_rows_def)

lemma ex_pct_cells:
  "cells (matrix_pct ex_rows) = [Finite 0, Finite 100, Finite 0, Finite 0, Finite 0]"
  by (simp add: cells_def matrix_pct_index matrix_pct_columns ex_matrix_labels forest_types_def
        matrix_pct_cell ex_total ex_percentage)

subsection \<open>Cut type\<close>

text \<open>
  Claim C6 (cut type), as the code has it. The chosen code of a fragment is its
  disturbance code when that is present and its origin code otherwise. When there is a
  chosen code, the cut type is the \<open>english_category\<close> of its entry in the cut-category
  dictionary (the code itself when the entry has none), and the code itself when it is
  no key of the dictionary. The cut type is null exactly when both codes are null.
\<close>

theorem cuttype_of_fragment:
  "(\<forall>code. PERTURB row = Some code \<or> PERTURB row = None \<and> ORIGINE row = Some code \<longrightarrow>
      CUTTYPE (area_and_cuttype eng cut_categories row) =
        Some (case cut_categories code of
                None \<Rightarrow> code
              | Some entry \<Rightarrow> (case entry ''english_category'' of Some c \<Rightarrow> c | None \<Rightarrow> code))) \<and>
   (CUTTYPE (area_and_cuttype eng cut_categories row) = None
      \<longleftrightarrow> PERTURB row = None \<and> ORIGINE row = None)"
  by (auto simp: CUTTYPE_area_and_cuttype reclassify_cuttype_def split: option.splits)

theorem cuttype_of_fragment_witness:
  "CUTTYPE (area_and_cuttype ex_frame_engine ex_cut (ex_frame ! 0)) = Some ''Clearcut'' \<and>
   CUTTYPE (area_and_cuttype ex_frame_engine ex_cut (ex_frame ! 1)) = Some ''Clearcut'' \<and>
   CUTTYPE (area_and_cuttype ex_frame_engine ex_cut ((ex_frame ! 1)\<lparr> PERTURB := Some ''CJ'' \<rparr>))
     = Some ''CJ'' \<and>
   CUTTYPE (area_and_cuttype ex_frame_engine ex_cut ((ex_frame ! 1)\<lparr> PERTURB := Some ''PL'' \<rparr>))
     = Some ''PL'' \<and>
   CUTTYPE (area_and_cuttype ex_frame_engine ex_cut (ex_frame ! 2)) = None"
  using cuttype_of_fragment [of "ex_frame ! 0" ex_frame_engine ex_cut]
    cuttype_of_fragment [of "ex_frame ! 1" ex_frame_engine ex_cut]
    cuttype_of_fragment [of "(ex_frame ! 1)\<lparr> PERTURB := Some ''CJ'' \<rparr>" ex_frame_engine ex_cut]
    cuttype_of_fragment [of "(ex_frame ! 1)\<lparr> PERTURB := Some ''PL'' \<rparr>" ex_frame_engine ex_cut]
    cuttype_of_fragment [of "ex_frame ! 2" ex_frame_engine ex_cut]
  by (simp add: ex_frame_def ex_cut_def)

text \<open>
  The claim as it is worded (the cut type is never null) fails on the third fragment of
  the small frame, whose two codes are null.
\<close>

theorem cuttype_null_when_both_codes_null:
  "PERTURB (ex_frame ! 2) = None \<and> ORIGINE (ex_frame ! 2) = None \<and>
   CUTTYPE (area_and_cuttype ex_frame_engine ex_cut (ex_frame ! 2)) = None"
  by (simp add: ex_frame_def CUTTYPE_area_and_cuttype reclassify_cuttype_def)

subsection \<open>The two matrices\<close>

text \<open>
  Claim C10 (fragments without cut type), as the code has it. For fragments of positive
  area: a fragment whose disturbance and origin codes are both null gets a null cut
  type; the row labels of the area matrix are the cut types that are not null, the
  percentage matrix has the same row labels and the probability matrix a part of them,
  and the cells of the area matrix add up to the area of the fragments whose cut type is
  not null, while the total area is the area of all fragments. Consequently, when there
  is such a fragment, the percentages before rounding (the cells of \<open>matrix / total_area
  * 100\<close>) add up to strictly less than 100.
\<close>

theorem null_cuttype_excluded_from_matrix:
  assumes "\<forall>row \<in> set frame. 0 < area eng (Polygon (geometry row))"
  shows
  "(\<forall>row \<in> set frame. PERTURB row = None \<and> ORIGINE row = None \<longrightarrow>
      CUTTYPE (area_and_cuttype eng cut_categories row) = None) \<and>
   set (df_index (matrix (classified eng cut_categories frame)))
     = {c. \<exists>row \<in> set frame. CUTTYPE (area_and_cuttype eng cut_categories row) = Some c} \<and>
   df_index (matrix_pct (classified eng cut_categories frame))
     = df_index (matrix (classified eng cut_categories frame)) \<and>
   set (df_index (matrix_prob (classified eng cut_categories frame)))
     \<subseteq> set (df_index (matrix (classified eng cut_categories frame))) \<and>
   fsum (cells (matrix (classified eng cut_categories frame)))
     = Finite (\<Sum>row\<leftarrow>filter (\<lambda>row. CUTTYPE (area_and_cuttype eng cut_categories row) \<noteq> None) frame.
                 area eng (Polygon (geometry row))) \<and>
   total_area (classified eng cut_categories frame)
     = (\<Sum>row\<leftarrow>frame. area eng (Polygon (geometry row))) \<and>
   ((\<exists>row \<in> set frame. PERTURB row = None \<and> ORIGINE row = None) \<longrightarrow>
      (\<exists>s. fsum (cells (matrix_ratio (classified eng cut_categories frame))) = Finite s \<and> s < 100))"
proof -
  let ?g = "\<lambda>row. forest_type (area_and_cuttype eng cut_categories row)"
  let ?rows = "classified eng cut_categories frame"
  have rows: "?rows = map ?g frame" by (simp add: classified_def)
  have a: "\<forall>row \<in> set frame. PERTURB row = None \<and> ORIGINE row = None \<longrightarrow>
      CUTTYPE (area_and_cuttype eng cut_categories row) = None"
    by (simp add: CUTTYPE_area_and_cuttype reclassify_cuttype_def)
  have b: "set (df_index (matrix ?rows))
     = {c. \<exists>row \<in> set frame. CUTTYPE (area_and_cuttype eng cut_categories row) = Some c}"
    unfolding matrix_index_set rows by (auto simp: classified_fields)
  have c: "fsum (cells (matrix ?rows))
     = Finite (\<Sum>row\<leftarrow>filter (\<lambda>row. CUTTYPE (area_and_cuttype eng cut_categories row) \<noteq> None) frame.
                 area eng (Polygon (geometry row)))"
    unfolding sum_cells_matrix rows
    by (simp add: filter_map comp_def classified_fields)
  have pos: "\<forall>row \<in> set ?rows. 0 < AREACUT row"
    using assms unfolding rows by (simp add: classified_fields)
  have d: "\<exists>s. fsum (cells (matrix_ratio ?rows)) = Finite s \<and> s < 100"
    if "\<exists>row \<in> set frame. PERTURB row = None \<and> ORIGINE row = None"
  proof -
    from that obtain row where row: "row \<in> set frame" "PERTURB row = None" "ORIGINE row = None"
      by blast
    have "?g row \<in> set ?rows" using row(1) unfolding rows by simp
    moreover have "CUTTYPE (?g row) = None"
      using a row by (simp add: classified_fields)
    ultimately show ?thesis by (rule ratio_sum_below_100 [OF pos])
  qed
  have e: "set (df_index (matrix_prob ?rows)) \<subseteq> set (df_index (matrix ?rows))"
    by (simp add: matrix_prob_index)
  from a b c d e show ?thesis
    by (simp only: matrix_pct_index total_area_classified) blast
qed

theorem null_cuttype_excluded_from_matrix_witness:
  "list_all (\<lambda>row. 0 < area ex_frame_engine (Polygon (geometry row))) ex_frame \<and>
   CUTTYPE (area_and_cuttype ex_frame_engine ex_cut (ex_frame ! 2)) = None \<and>
   df_index (matrix_pct (classified ex_frame_engine ex_cut ex_frame)) = [''Clearcut''] \<and>
   fsum (cells (matrix (classified ex_frame_engine ex_cut ex_frame))) = Finite 99999 \<and>
   total_area (classified ex_frame_engine ex_cut ex_frame) = 100000 \<and>
   (\<exists>s. fsum (cells (matrix_ratio (classified ex_frame_engine ex_cut ex_frame))) = Finite s \<and> s < 100)"
proof -
  have pos: "\<forall>row \<in> set ex_frame. 0 < area ex_frame_engine (Polygon (geometry row))"
    by (simp add: ex_frame_def ex_frame_engine_def)
  have null: "ex_frame ! 2 \<in> set ex_frame" "PERTURB (ex_frame ! 2) = None"
    "ORIGINE (ex_frame ! 2) = None"
    by (simp_all add: ex_frame_def)
  note inst = null_cuttype_excluded_from_matrix [OF pos, of ex_cut]
  from inst null have a: "CUTTYPE (area_and_cuttype ex_frame_engine ex_cut (ex_frame ! 2)) = None"
    by blast
  from inst have b: "df_index (matrix_pct (classified ex_frame_engine ex_cut ex_frame)) = [''Clearcut'']"
    by (simp add: ex_classified ex_matrix_labels)
  from inst have "fsum (cells (matrix (classified ex_frame_engine ex_cut ex_frame)))
     = Finite (\<Sum>row\<leftarrow>filter (\<lambda>row. CUTTYPE (area_and_cuttype ex_frame_engine ex_cut row) \<noteq> None) ex_frame.
                 area ex_frame_engine (Polygon (geometry row)))"
    by blast
  then have c: "fsum (cells (matrix (classified ex_frame_engine ex_cut ex_frame))) = Finite 99999"
    by (simp add: ex_frame_def ex_frame_engine_def ex_cut_def CUTTYPE_area_and_cuttype
          reclassify_cuttype_def)
  from inst have "total_area (classified ex_frame_engine ex_cut ex_frame)
     = (\<Sum>row\<leftarrow>ex_frame. area ex_frame_engine (Polygon (geometry row)))"
    by blast
  then have d: "total_area (classified ex_frame_engine ex_cut ex_frame) = 100000"
    by (simp add: ex_frame_def ex_frame_engine_def)
  from inst null have e: "\<exists>s. fsum (cells (matrix_ratio (classified ex_frame_engine ex_cut ex_frame)))
      = Finite s \<and> s < 100"
    by blast
  from pos a b c d e show ?thesis by (simp add: list_all_iff)
qed

text \<open>
  The claim as it is worded fails for the exported percentage matrix, whose cells are
  rounded to two decimals: in the small frame a fragment has no cut type, the total area
  is 100000, and the cells of the percentage matrix add up to 100.
\<close>

theorem rounded_percentages_reach_100:
  "classified ex_frame_engine ex_cut ex_frame = ex_rows \<and>
   PERTURB (ex_frame ! 2) = None \<and> ORIGINE (ex_frame ! 2) = None \<and>
   CUTTYPE (ex_rows ! 2) = None \<and>
   total_area ex_rows = 100000 \<and>
   cells (matrix_pct ex_rows) = [Finite 0, Finite 100, Finite 0, Finite 0, Finite 0] \<and>
   fsum (cells (matrix_pct ex_rows)) = Finite 100"
  by (simp add: ex_classified ex_total ex_pct_cells fsum_def)
     (simp add: ex_frame_def ex_rows_def)




subsection \<open>The checkpoint\<close>

text \<open>
  Whenever the GeoPackage exists at the start, the name \<open>interv_fores_gdf\<close> is not bound
  (lines 30--39 bind it only when the file is missing), and line 43 uses it: the script
  ends there with \<open>NameError\<close>, before line 78 looks at the file, and leaves the file as
  it found it.
\<close>

lemma run_script_existing_file:
  "file \<noteq> Missing \<Longrightarrow>
   run_script eng shade_tolerance cut_categories forest_cut forest_inv file = (file, Inl NameError)"
  by (simp add: run_script_def load_forest_cut_def build_spatial_index_def)

text \<open>
  What lines 78--102 would do if they were reached with the name bound: a saved file
  is read back as the frame it was computed from and the overlay is skipped; an
  unreadable file is unlinked. In the recomputation that would follow, line 160 uses
  \<open>interv_fores_gdf\<close> after line 79 has deleted it: in the small instance the overlay
  then ends with \<open>NameError\<close> at the first pair that passes the test of the area.
\<close>

lemma read_saved_frame:
  "read_dataframe (Saved (map (area_and_cuttype eng cut_categories) frame)) = Some frame"
proof -
  have "make_feature_out (area_and_cuttype eng cut_categories row)
          (CL_AGE (area_and_cuttype eng cut_categories row))
          (GR_ESS (area_and_cuttype eng cut_categories row))
          (CO_TER (area_and_cuttype eng cut_categories row))
          (geometry (area_and_cuttype eng cut_categories row)) = row" for row
    by (cases row)
       (simp add: make_feature_out_def area_and_cuttype_def feature_out.extend_def
          clipped_row.fields_def)
  note id = this
  have "map (\<lambda>row. make_feature_out row (CL_AGE row) (GR_ESS row) (CO_TER row) (geometry row))
          (map (area_and_cuttype eng cut_categories) frame) = frame"
    unfolding map_map by (intro map_idI) (simp add: id)
  then show ?thesis by (simp only: read_dataframe.simps)
qed

lemma checkpoint_branch_valid:
  "load_checkpoint (Saved (map (area_and_cuttype eng cut_categories) frame)) (Some gdf)
     = Inr (Saved (map (area_and_cuttype eng cut_categories) frame), None, Some frame) \<and>
   overlay_phase eng shade_tolerance interv_geoms forest_inv
       (Saved (map (area_and_cuttype eng cut_categories) frame)) None (Some frame)
     = (Saved (map (area_and_cuttype eng cut_categories) frame), Inr frame)"
  by (simp add: load_checkpoint_def overlay_phase_def read_saved_frame del: read_dataframe.simps)

lemma checkpoint_branch_unreadable:
  "load_checkpoint Unreadable (Some gdf) = Inr (Missing, None, None)"
  by (simp add: load_checkpoint_def)

lemma ex_overlay_unbound:
  "overlay ex_engine ex_shade (map interv_geometry ex_gdf) None ex_src = Inl (NameError, writer_init)"
  by (simp add: overlay_def Let_def ex_engine_def ex_gdf_def ex_src_def upt2
        ex_intersection_def ex_poly_area_def)

text \<open>
  Claim C2 (checkpoint idempotence) on the code. The first run of the small instance
  leaves a valid saved GeoPackage; the second run against the same inputs does not
  validate it, skip the overlay and complete: it ends with \<open>NameError\<close> at line 43. The
  file is unchanged only because the run stops before it reaches the checkpoint.
\<close>

theorem second_run_raises_NameError:
  "fst (run_script ex_engine ex_shade ex_cut ex_gdf ex_src Missing)
     = Saved (map (area_and_cuttype ex_engine ex_cut) ex_records) \<and>
   run_script ex_engine ex_shade ex_cut ex_gdf ex_src
     (Saved (map (area_and_cuttype ex_engine ex_cut) ex_records))
     = (Saved (map (area_and_cuttype ex_engine ex_cut) ex_records), Inl NameError)"
  by (simp add: run_script_first_run [OF ex_in_range] ex_accepted run_script_existing_file)

text \<open>
  Claim C5 (recovery from a corrupt checkpoint) on the code. With a GeoPackage that
  exists but cannot be opened or parsed, the script ends with \<open>NameError\<close> at line 43:
  the file is not deleted and the overlay does not run.
\<close>

theorem unreadable_checkpoint_raises_NameError:
  "run_script ex_engine ex_shade ex_cut ex_gdf ex_src Unreadable = (Unreadable, Inl NameError)"
  by (simp add: run_script_existing_file)

end
